theory Spec2Isabelle
  imports Complex_Main
begin

section \<open>Python values carried by the JSON protocol\<close>

text \<open>
  The bridge handles whatever \<^verbatim>\<open>json.loads\<close> returns (\<^verbatim>\<open>Dict[str, Any]\<close>): the model
  keeps Python's dynamic typing. A float is its exact rational value or one of the three
  special values that \<^verbatim>\<open>json.loads\<close> accepts. A dict is an association list read with
  \<^const>\<open>map_of\<close> (the first binding of a key is the one in force). A string is a list of
  characters with code points below 256.
\<close>

datatype pyfloat = Finite rat | PosInf | NegInf | NaN

datatype json =
    JNull
  | JBool bool
  | JInt int
  | JFloat pyfloat
  | JStr string
  | JList "json list"
  | JDict "(string \<times> json) list"

type_synonym path = "string list"

text \<open>
  Exceptions are values. \<open>PathEscape p\<close> is the \<^verbatim>\<open>ValueError("Chemin hors workspace_root: p")\<close>
  of \<^verbatim>\<open>safe_relpath\<close>, \<open>NoJson\<close> the \<^verbatim>\<open>ValueError("R\'eponse sans JSON valide.")\<close> of the
  parser, \<open>ReError m\<close> is \<^verbatim>\<open>re.error\<close>, \<open>BackendFailure m\<close> any exception of a backend call.
\<close>

datatype exn =
    PathEscape path
  | NoJson
  | JSONDecodeError
  | ReError string
  | BackendFailure string
  | ValueErr
  | TypeErr
  | AttributeErr
  | OverflowErr
  | IndexErr
  | UnboundLocalErr
  | RuntimeErr
  | FileExistsErr
  | FileNotFoundErr
  | NotADirectoryErr
  | IsADirectoryErr

text \<open>Truth value of a Python object, as \<^verbatim>\<open>not x\<close>, \<^verbatim>\<open>x or y\<close> and \<^verbatim>\<open>bool(x)\<close> see it.\<close>

fun truthy :: "json \<Rightarrow> bool" where
  "truthy JNull = False"
| "truthy (JBool b) = b"
| "truthy (JInt n) = (n \<noteq> 0)"
| "truthy (JFloat f) = (f \<noteq> Finite 0)"
| "truthy (JStr s) = (s \<noteq> [])"
| "truthy (JList xs) = (xs \<noteq> [])"
| "truthy (JDict kvs) = (kvs \<noteq> [])"

text \<open>\<^verbatim>\<open>x or y\<close>\<close>

definition py_or :: "json \<Rightarrow> json \<Rightarrow> json" where
  "py_or x y = (if truthy x then x else y)"

text \<open>\<^verbatim>\<open>d.get(k, default)\<close>; only a dict has the method.\<close>

fun py_get :: "json \<Rightarrow> string \<Rightarrow> json \<Rightarrow> exn + json" where
  "py_get (JDict kvs) k d = Inr (case map_of kvs k of None \<Rightarrow> d | Some v \<Rightarrow> v)"
| "py_get _ k d = Inl AttributeErr"

text \<open>
  \<^verbatim>\<open>for ch in x\<close>: a list gives its items, a string its characters, a dict its keys;
  nothing else that JSON decodes to is iterable.
\<close>

fun py_iter :: "json \<Rightarrow> exn + json list" where
  "py_iter (JList xs) = Inr xs"
| "py_iter (JStr s) = Inr (map (\<lambda>c. JStr [c]) s)"
| "py_iter (JDict kvs) = Inr (map JStr (remdups (map fst kvs)))"
| "py_iter _ = Inl TypeErr"

section \<open>Paths and the workspace root\<close>

text \<open>
  An absolute path is the list of its parts, the anchor first (\<open>''/''\<close>, or \<open>''//''\<close> for
  the POSIX path with exactly two leading slashes, which \<^verbatim>\<open>pathlib\<close> keeps apart).
  \<open>joinpath\<close> is \<^verbatim>\<open>WORKSPACE_ROOT / path_str\<close>: empty and \<^verbatim>\<open>.\<close> parts vanish, \<^verbatim>\<open>..\<close> stays, and
  an absolute right operand replaces the left one.
\<close>

fun split_slash :: "string \<Rightarrow> string list" where
  "split_slash [] = [[]]"
| "split_slash (c # cs) =
     (if c = CHR ''/'' then [] # split_slash cs
      else (case split_slash cs of [] \<Rightarrow> [[c]] | w # ws \<Rightarrow> (c # w) # ws))"

definition parse_parts :: "string \<Rightarrow> string list" where
  "parse_parts s = filter (\<lambda>w. w \<noteq> [] \<and> w \<noteq> ''.'') (split_slash s)"

definition anchor :: "string \<Rightarrow> string" where
  "anchor s = (if length (takeWhile (\<lambda>c. c = CHR ''/'') s) = 2 then ''//'' else ''/'')"

definition joinpath :: "path \<Rightarrow> string \<Rightarrow> path" where
  "joinpath wsroot s =
     (if s \<noteq> [] \<and> hd s = CHR ''/'' then anchor s # parse_parts s else wsroot @ parse_parts s)"

text \<open>\<^verbatim>\<open>p.parents\<close>: the proper ancestors, down to the anchor; \<^verbatim>\<open>p.parent\<close>.\<close>

definition parents :: "path \<Rightarrow> path list" where
  "parents p = map (\<lambda>n. take n p) [1..<length p]"

definition parent :: "path \<Rightarrow> path" where
  "parent p = (if length p \<le> 1 then p else butlast p)"

text \<open>
  \<^verbatim>\<open>Path.resolve()\<close> belongs to the standard library and reads the symbolic links of the
  machine: it is a parameter \<open>resolve\<close> of the model, which may also raise. The bridge
  creates and removes no link, so one function serves a whole run.
  \<open>resolve_nolinks\<close> is what it computes where no part of the path is a link.
\<close>

definition resolve_nolinks :: "path \<Rightarrow> exn + path" where
  "resolve_nolinks p =
     Inr (foldl (\<lambda>acc c. if c = ''..'' then (if length acc \<le> 1 then acc else butlast acc)
                          else acc @ [c]) [hd p] (tl p))"

text \<open>\<^verbatim>\<open>safe_relpath\<close>, on a path that is a string (\<^verbatim>\<open>/\<close> raises TypeError on anything else).\<close>

definition safe_relpath :: "(path \<Rightarrow> exn + path) \<Rightarrow> path \<Rightarrow> json \<Rightarrow> exn + path" where
  "safe_relpath resolve wsroot path_str =
     (case path_str of
        JStr s \<Rightarrow>
          (case resolve (joinpath wsroot s) of
             Inl e \<Rightarrow> Inl e
           | Inr p \<Rightarrow>
               if wsroot \<notin> set (parents p) \<and> p \<noteq> wsroot then Inl (PathEscape p) else Inr p)
      | _ \<Rightarrow> Inl TypeErr)"

section \<open>The file system\<close>

text \<open>
  A file system maps a resolved path to a regular file with its text or to a directory;
  the anchor is always a directory. It is meant well formed: what lies above an entry is
  a directory. Failures are the structural ones of POSIX: a directory where a file is
  written or read, a regular file where a directory is needed.
\<close>

datatype node = File string | Dir

type_synonym fs = "path \<Rightarrow> node option"

definition node_at :: "fs \<Rightarrow> path \<Rightarrow> node option" where
  "node_at fs p = (if length p \<le> 1 then Some Dir else fs p)"

fun is_file :: "node option \<Rightarrow> bool" where
  "is_file (Some (File s)) = True"
| "is_file _ = False"

text \<open>The ancestors-or-self of \<open>d\<close> below the anchor, top down.\<close>

definition dir_chain :: "path \<Rightarrow> path list" where
  "dir_chain d = map (\<lambda>n. take n d) [2..<Suc (length d)]"

text \<open>
  \<^verbatim>\<open>d.mkdir(parents=True, exist_ok=True)\<close>: raises when \<open>d\<close> or one of its ancestors is a
  regular file and then creates nothing; otherwise every missing directory of the chain
  exists afterwards.
\<close>

definition mkdir_parents :: "fs \<Rightarrow> path \<Rightarrow> exn + fs" where
  "mkdir_parents fs d =
     (case filter (\<lambda>q. is_file (node_at fs q)) (dir_chain d) of
        [] \<Rightarrow> Inr (\<lambda>q. if q \<in> set (dir_chain d) \<and> fs q = None then Some Dir else fs q)
      | q # _ \<Rightarrow> Inl (if q = d then FileExistsErr else NotADirectoryErr))"

text \<open>\<^verbatim>\<open>target.write_text(data, encoding="utf-8")\<close>: the type of \<open>data\<close> is checked before the file is opened.\<close>

definition write_text :: "fs \<Rightarrow> path \<Rightarrow> json \<Rightarrow> exn + fs" where
  "write_text fs p data =
     (case data of
        JStr s \<Rightarrow>
          (case node_at fs p of
             Some Dir \<Rightarrow> Inl IsADirectoryErr
           | _ \<Rightarrow>
               (case node_at fs (parent p) of
                  Some Dir \<Rightarrow> Inr (fs(p \<mapsto> File s))
                | Some (File t) \<Rightarrow> Inl NotADirectoryErr
                | None \<Rightarrow> Inl FileNotFoundErr))
      | _ \<Rightarrow> Inl TypeErr)"

text \<open>
  \<^verbatim>\<open>read_text\<close> opens the file in text mode: the line endings CR LF and CR are read as LF
  (\<^verbatim>\<open>write_text\<close> above writes the text as it is, since the line separator of POSIX is LF).
\<close>

fun universal_newlines :: "string \<Rightarrow> string" where
  "universal_newlines [] = []"
| "universal_newlines [c] = (if c = CHR 0x0D then [CHR 0x0A] else [c])"
| "universal_newlines (c # d # cs) =
     (if c = CHR 0x0D then
        (if d = CHR 0x0A then CHR 0x0A # universal_newlines cs
         else CHR 0x0A # universal_newlines (d # cs))
      else c # universal_newlines (d # cs))"

text \<open>\<^verbatim>\<open>target.read_text(encoding="utf-8") if target.exists() else ""\<close>\<close>

definition read_or_empty :: "fs \<Rightarrow> path \<Rightarrow> exn + string" where
  "read_or_empty fs p =
     (case node_at fs p of
        None \<Rightarrow> Inr []
      | Some (File s) \<Rightarrow> Inr (universal_newlines s)
      | Some Dir \<Rightarrow> Inl IsADirectoryErr)"

section \<open>Literal search and replacement\<close>

text \<open>\<^verbatim>\<open>find in text\<close> and \<^verbatim>\<open>text.replace(find, content, 1)\<close> on strings.\<close>

fun is_prefix :: "string \<Rightarrow> string \<Rightarrow> bool" where
  "is_prefix [] ys = True"
| "is_prefix (x # xs) [] = False"
| "is_prefix (x # xs) (y # ys) = (x = y \<and> is_prefix xs ys)"

fun py_in :: "string \<Rightarrow> string \<Rightarrow> bool" where
  "py_in f [] = (f = [])"
| "py_in f (x # xs) = (is_prefix f (x # xs) \<or> py_in f xs)"

fun replace_first :: "string \<Rightarrow> string \<Rightarrow> string \<Rightarrow> string" where
  "replace_first f c [] = (if f = [] then c else [])"
| "replace_first f c (x # xs) =
     (if is_prefix f (x # xs) then c @ drop (length f) (x # xs)
      else x # replace_first f c xs)"

section \<open>The change executor\<close>

text \<open>
  The reason strings of \<^verbatim>\<open>apply_change\<close>, one constructor per f-string, with the values
  the f-string prints: \<open>PatchedRegex n p\<close> is \<^verbatim>\<open>"[patch_block/regex x{n}] {path}"\<close>,
  \<open>RienTrouve p\<close> is \<^verbatim>\<open>"rien trouv\'e pour regex dans {path}"\<close>, \<open>BlocIntrouvable p\<close> is
  \<^verbatim>\<open>"bloc 'find' introuvable dans {path}"\<close>, \<open>Incomplete\<close> is
  \<^verbatim>\<open>"change incomplet (action/path manquant)."\<close>, and so on.
\<close>

datatype msg =
    Incomplete
  | Replaced json
  | Appended json
  | PatchSansFind
  | RegexInvalide string
  | RienTrouve json
  | PatchedRegex nat json
  | BlocIntrouvable json
  | Patched json
  | ActionInconnue json

text \<open>
  \<^verbatim>\<open>re.subn(find, content, text, flags=re.S)\<close> is the standard library's: the parameter
  \<open>subn\<close>, given the pattern and the replacement as the code passes them (any value) and
  the text, returns the new text with the number of substitutions, or raises.
\<close>

type_synonym subn_fun = "json \<Rightarrow> json \<Rightarrow> string \<Rightarrow> exn + (string \<times> nat)"

definition patch_block ::
  "subn_fun \<Rightarrow> fs \<Rightarrow> path \<Rightarrow> json \<Rightarrow> json \<Rightarrow> json \<Rightarrow> (exn + bool \<times> msg) \<times> fs" where
  "patch_block subn fs target change path content =
     (case py_get change ''find'' JNull of
        Inl e \<Rightarrow> (Inl e, fs)
      | Inr find' \<Rightarrow>
     (case py_get change ''regex'' (JBool False) of
        Inl e \<Rightarrow> (Inl e, fs)
      | Inr regex \<Rightarrow>
     if \<not> truthy find' then (Inr (False, PatchSansFind), fs)
     else
     (case read_or_empty fs target of
        Inl e \<Rightarrow> (Inl e, fs)
      | Inr text \<Rightarrow>
     if truthy regex then
       (case subn find' content text of
          Inl (ReError m) \<Rightarrow> (Inr (False, RegexInvalide m), fs)
        | Inl e \<Rightarrow> (Inl e, fs)
        | Inr (new_text, n) \<Rightarrow>
            if n = 0 then (Inr (False, RienTrouve path), fs)
            else
              (case write_text fs target (JStr new_text) of
                 Inl e \<Rightarrow> (Inl e, fs)
               | Inr fs' \<Rightarrow> (Inr (True, PatchedRegex n path), fs')))
     else
       (case find' of
          JStr f \<Rightarrow>
            if \<not> py_in f text then (Inr (False, BlocIntrouvable path), fs)
            else
              (case content of
                 JStr c \<Rightarrow>
                   (case write_text fs target (JStr (replace_first f c text)) of
                      Inl e \<Rightarrow> (Inl e, fs)
                    | Inr fs' \<Rightarrow> (Inr (True, Patched path), fs'))
               | _ \<Rightarrow> (Inl TypeErr, fs))
        | _ \<Rightarrow> (Inl TypeErr, fs)))))"

definition apply_change ::
  "(path \<Rightarrow> exn + path) \<Rightarrow> subn_fun \<Rightarrow> path \<Rightarrow> fs \<Rightarrow> json \<Rightarrow> (exn + bool \<times> msg) \<times> fs" where
  "apply_change resolve subn wsroot fs change =
     (case py_get change ''action'' JNull of
        Inl e \<Rightarrow> (Inl e, fs)
      | Inr action \<Rightarrow>
     (case py_get change ''path'' JNull of
        Inl e \<Rightarrow> (Inl e, fs)
      | Inr path \<Rightarrow>
     (case py_get change ''content'' (JStr []) of
        Inl e \<Rightarrow> (Inl e, fs)
      | Inr content \<Rightarrow>
     if \<not> truthy action \<or> \<not> truthy path then (Inr (False, Incomplete), fs)
     else
     (case safe_relpath resolve wsroot path of
        Inl e \<Rightarrow> (Inl e, fs)
      | Inr target \<Rightarrow>
     (case mkdir_parents fs (parent target) of
        Inl e \<Rightarrow> (Inl e, fs)
      | Inr fs1 \<Rightarrow>
     if action = JStr ''replace'' then
       (case write_text fs1 target content of
          Inl e \<Rightarrow> (Inl e, fs1)
        | Inr fs2 \<Rightarrow> (Inr (True, Replaced path), fs2))
     else if action = JStr ''append'' then
       (case read_or_empty fs1 target of
          Inl e \<Rightarrow> (Inl e, fs1)
        | Inr prev \<Rightarrow>
            (case content of
               JStr c \<Rightarrow>
                 (case write_text fs1 target (JStr (prev @ c)) of
                    Inl e \<Rightarrow> (Inl e, fs1)
                  | Inr fs2 \<Rightarrow> (Inr (True, Appended path), fs2))
             | _ \<Rightarrow> (Inl TypeErr, fs1)))
     else if action = JStr ''patch_block'' then patch_block subn fs1 target change path content
     else (Inr (False, ActionInconnue action), fs1))))))"

section \<open>The batch applier\<close>

text \<open>
  One log line per change: the flag is the prefix (check mark or warning sign), the text
  is the reason of \<^verbatim>\<open>apply_change\<close> or \<^verbatim>\<open>"ERREUR: {e}"\<close> for the exception it raised.
\<close>

datatype logmsg = Msg msg | Erreur exn

fun apply_each ::
  "(path \<Rightarrow> exn + path) \<Rightarrow> subn_fun \<Rightarrow> path \<Rightarrow> fs \<Rightarrow> json list \<Rightarrow> (bool \<times> logmsg) list \<times> fs" where
  "apply_each resolve subn wsroot fs [] = ([], fs)"
| "apply_each resolve subn wsroot fs (ch # chs) =
     (case apply_change resolve subn wsroot fs ch of
        (r, fs1) \<Rightarrow>
          (case apply_each resolve subn wsroot fs1 chs of
             (logs, fs2) \<Rightarrow>
               ((case r of Inl e \<Rightarrow> (False, Erreur e) | Inr (ok, m) \<Rightarrow> (ok, Msg m)) # logs, fs2)))"

definition apply_changes ::
  "(path \<Rightarrow> exn + path) \<Rightarrow> subn_fun \<Rightarrow> path \<Rightarrow> fs \<Rightarrow> json \<Rightarrow> (exn + (bool \<times> logmsg) list) \<times> fs" where
  "apply_changes resolve subn wsroot fs changes =
     (case py_iter (py_or changes (JList [])) of
        Inl e \<Rightarrow> (Inl e, fs)
      | Inr chs \<Rightarrow>
          (case apply_each resolve subn wsroot fs chs of (logs, fs') \<Rightarrow> (Inr logs, fs')))"

section \<open>The response parser\<close>

text \<open>
  \<^verbatim>\<open>re.findall(r"(\{.*\})", text, flags=re.S)\<close>: the pattern is fixed, so its matches are
  written out. With the dot matching every character and a greedy star, the leftmost
  match starts at the first opening brace and ends at the last closing brace of the text
  (when one follows); the search resumes after that brace, where no closing brace is
  left, so there is at most one match.
\<close>

definition brace_span :: "string \<Rightarrow> string option" where
  "brace_span text =
     (case dropWhile (\<lambda>c. c \<noteq> CHR ''{'') text of
        [] \<Rightarrow> None
      | b # rest \<Rightarrow>
          (case rev (dropWhile (\<lambda>c. c \<noteq> CHR ''}'') (rev rest)) of
             [] \<Rightarrow> None
           | r # rs \<Rightarrow> Some (b # r # rs)))"

definition findall_braces :: "string \<Rightarrow> string list" where
  "findall_braces text = (case brace_span text of None \<Rightarrow> [] | Some c \<Rightarrow> [c])"

text \<open>\<^verbatim>\<open>str.strip()\<close>: the characters below 256 for which \<^verbatim>\<open>str.isspace\<close> holds are removed.\<close>

definition py_space :: "char \<Rightarrow> bool" where
  "py_space c = (let n = (of_char c :: nat) in
     (9 \<le> n \<and> n \<le> 13) \<or> (28 \<le> n \<and> n \<le> 32) \<or> n = 133 \<or> n = 160)"

definition strip :: "string \<Rightarrow> string" where
  "strip s = rev (dropWhile py_space (rev (dropWhile py_space s)))"

text \<open>
  \<^verbatim>\<open>json.loads\<close> is the standard library's: the parameter \<open>loads\<close>, with \<open>None\<close> for any
  exception it raises. The loop over the candidates keeps the first that decodes.
\<close>

fun first_decoding :: "(string \<Rightarrow> json option) \<Rightarrow> string list \<Rightarrow> json option" where
  "first_decoding loads [] = None"
| "first_decoding loads (cand # cands) =
     (case loads cand of Some v \<Rightarrow> Some v | None \<Rightarrow> first_decoding loads cands)"

definition parse_first_json_block :: "(string \<Rightarrow> json option) \<Rightarrow> string \<Rightarrow> exn + json" where
  "parse_first_json_block loads text =
     (case first_decoding loads (findall_braces text) of
        Some v \<Rightarrow> Inr v
      | None \<Rightarrow>
          (let text_stripped = strip text in
           if text_stripped \<noteq> [] \<and> hd text_stripped = CHR ''{'' \<and> last text_stripped = CHR ''}''
           then (case loads text_stripped of Some v \<Rightarrow> Inr v | None \<Rightarrow> Inl JSONDecodeError)
           else Inl NoJson))"

section \<open>The collaborators\<close>

text \<open>
  A backend is outside the program: what its call of a given turn does is given, either
  an exception or the text it returns. \<^verbatim>\<open>ask_claude\<close> and \<^verbatim>\<open>ask_codex\<close> parse that text.
\<close>

datatype reply = Fails string | Says string

definition ask_claude :: "(string \<Rightarrow> json option) \<Rightarrow> reply \<Rightarrow> exn + json" where
  "ask_claude loads r =
     (case r of Fails m \<Rightarrow> Inl (BackendFailure m) | Says text \<Rightarrow> parse_first_json_block loads text)"

definition ask_codex :: "(string \<Rightarrow> json option) \<Rightarrow> reply \<Rightarrow> exn + json" where
  "ask_codex loads r =
     (case r of Fails m \<Rightarrow> Inl (BackendFailure m) | Says text \<Rightarrow> parse_first_json_block loads text)"

section \<open>Coercion of the score\<close>

text \<open>
  \<^verbatim>\<open>int(x)\<close>: an integer is itself, a boolean 0 or 1, a float is truncated towards zero, a
  string is read as a decimal literal (blanks around, a sign, digits with single
  underscores between them), anything else raises TypeError. The blanks that \<^verbatim>\<open>int\<close>
  skips are not those of \<^verbatim>\<open>strip\<close>: the separators 28 to 31 are not among them. A literal
  of more than 4300 digits is refused (the interpreter's default limit).
\<close>

definition int_space :: "char \<Rightarrow> bool" where
  "int_space c = (let n = (of_char c :: nat) in
     (9 \<le> n \<and> n \<le> 13) \<or> n = 32 \<or> n = 133 \<or> n = 160)"

definition int_max_str_digits :: nat where
  "int_max_str_digits = 4300"

definition is_digit :: "char \<Rightarrow> bool" where
  "is_digit c = (48 \<le> (of_char c :: nat) \<and> (of_char c :: nat) \<le> 57)"

fun int_digits :: "bool \<Rightarrow> nat \<Rightarrow> string \<Rightarrow> nat option" where
  "int_digits prev acc [] = (if prev then Some acc else None)"
| "int_digits prev acc (c # cs) =
     (if is_digit c then int_digits True (acc * 10 + (of_char c - 48)) cs
      else if c = CHR ''_'' \<and> prev then int_digits False acc cs
      else None)"

definition int_of_str :: "string \<Rightarrow> exn + int" where
  "int_of_str s =
     (case rev (dropWhile int_space (rev (dropWhile int_space s))) of
        [] \<Rightarrow> Inl ValueErr
      | c # cs \<Rightarrow>
          (if int_max_str_digits < length (filter is_digit (c # cs)) then Inl ValueErr
           else if c = CHR ''-'' then
             (case int_digits False 0 cs of None \<Rightarrow> Inl ValueErr | Some n \<Rightarrow> Inr (- int n))
           else if c = CHR ''+'' then
             (case int_digits False 0 cs of None \<Rightarrow> Inl ValueErr | Some n \<Rightarrow> Inr (int n))
           else
             (case int_digits False 0 (c # cs) of None \<Rightarrow> Inl ValueErr | Some n \<Rightarrow> Inr (int n))))"

fun py_int :: "json \<Rightarrow> exn + int" where
  "py_int (JInt n) = Inr n"
| "py_int (JBool b) = Inr (if b then 1 else 0)"
| "py_int (JFloat (Finite q)) = Inr (if 0 \<le> q then \<lfloor>q\<rfloor> else \<lceil>q\<rceil>)"
| "py_int (JFloat NaN) = Inl ValueErr"
| "py_int (JFloat f) = Inl OverflowErr"
| "py_int (JStr s) = int_of_str s"
| "py_int v = Inl TypeErr"

section \<open>The negotiation loop\<close>

definition TURN_LIMIT :: nat where
  "TURN_LIMIT = 5"

definition APPLY_IMMEDIATELY_ON_DOUBLE_5 :: bool where
  "APPLY_IMMEDIATELY_ON_DOUBLE_5 = True"

text \<open>
  What a run does that can be seen from outside, in order: the backend calls and the
  lines it prints on errors and decisions (\<open>ClaudeErreur e\<close> is \<^verbatim>\<open>"Claude erreur: {e}"\<close>, \<open>Limite\<close> is
  \<^verbatim>\<open>"Limite d'\'echanges atteinte sans double 5/5."\<close>, \<open>Apercu c\<close> the preview of the
  candidate followed by the question to the user, and so on).
\<close>

datatype event =
    CallClaude nat
  | CallCodex nat
  | ClaudeErreur exn
  | CodexErreur exn
  | Double5
  | Logs "(bool \<times> logmsg) list"
  | AppliqueesDouble5
  | Limite
  | Apercu json
  | AppliqueesManuel
  | AucuneAppliquee
  | AucuneProposee
  | RootIntrouvable
  | QuestionVide

text \<open>
  The local variables of \<^verbatim>\<open>main\<close> that outlive a turn; \<open>None\<close> is a name not bound yet.
  \<open>files\<close> is the file system, \<open>trace\<close> the events so far.
\<close>

record state =
  turn :: nat
  c_changes :: "json option"
  d_changes :: "json option"
  files :: fs
  trace :: "event list"

text \<open>How control leaves a turn or the loop.\<close>

datatype exit = Returned | Broke | Exhausted | Raised exn

datatype step = Continue state | Stop exit state

text \<open>
  \<^verbatim>\<open>int(msg.get("score", 1))\<close> and \<^verbatim>\<open>msg.get("changes", [])\<close>, as \<^verbatim>\<open>main\<close> reads them from
  each of the two messages of a turn.
\<close>

definition score_of :: "json \<Rightarrow> exn + int" where
  "score_of msg = (case py_get msg ''score'' (JInt 1) of Inl e \<Rightarrow> Inl e | Inr v \<Rightarrow> py_int v)"

definition changes_of :: "json \<Rightarrow> exn + json" where
  "changes_of msg = py_get msg ''changes'' (JList [])"

text \<open>The body of the \<^verbatim>\<open>while\<close> loop: one turn.\<close>

definition turn_body ::
  "(path \<Rightarrow> exn + path) \<Rightarrow> subn_fun \<Rightarrow> (string \<Rightarrow> json option) \<Rightarrow> path \<Rightarrow>
   (nat \<Rightarrow> reply) \<Rightarrow> (nat \<Rightarrow> reply) \<Rightarrow> state \<Rightarrow> step" where
  "turn_body resolve subn loads wsroot claude codex st =
     (let st1 = st\<lparr>trace := trace st @ [CallClaude (turn st)]\<rparr> in
      case ask_claude loads (claude (turn st)) of
        Inl e \<Rightarrow> Stop Broke (st1\<lparr>trace := trace st1 @ [ClaudeErreur e]\<rparr>)
      | Inr claude_json \<Rightarrow>
     (case score_of claude_json of
        Inl e \<Rightarrow> Stop (Raised e) st1
      | Inr c_score \<Rightarrow>
     (case changes_of claude_json of
        Inl e \<Rightarrow> Stop (Raised e) st1
      | Inr c_ch \<Rightarrow>
     (let st2 = st1\<lparr>c_changes := Some c_ch, trace := trace st1 @ [CallCodex (turn st)]\<rparr> in
      case ask_codex loads (codex (turn st)) of
        Inl e \<Rightarrow> Stop Broke (st2\<lparr>trace := trace st2 @ [CodexErreur e]\<rparr>)
      | Inr codex_json \<Rightarrow>
     (case score_of codex_json of
        Inl e \<Rightarrow> Stop (Raised e) st2
      | Inr d_score \<Rightarrow>
     (case changes_of codex_json of
        Inl e \<Rightarrow> Stop (Raised e) st2
      | Inr d_ch \<Rightarrow>
     (let st3 = st2\<lparr>d_changes := Some d_ch\<rparr> in
      if APPLY_IMMEDIATELY_ON_DOUBLE_5 \<and> c_score = 5 \<and> d_score = 5 then
        (case apply_changes resolve subn wsroot (files st3) (py_or d_ch c_ch) of
           (Inl e, fs') \<Rightarrow>
             Stop (Raised e) (st3\<lparr>files := fs', trace := trace st3 @ [Double5]\<rparr>)
         | (Inr logs, fs') \<Rightarrow>
             Stop Returned
               (st3\<lparr>files := fs', trace := trace st3 @ [Double5, Logs logs, AppliqueesDouble5]\<rparr>))
      else Continue (st3\<lparr>turn := turn st3 + 1\<rparr>))))))))"

text \<open>\<^verbatim>\<open>while turn < TURN_LIMIT: ...\<close>\<close>

function loop ::
  "(path \<Rightarrow> exn + path) \<Rightarrow> subn_fun \<Rightarrow> (string \<Rightarrow> json option) \<Rightarrow> path \<Rightarrow>
   (nat \<Rightarrow> reply) \<Rightarrow> (nat \<Rightarrow> reply) \<Rightarrow> state \<Rightarrow> exit \<times> state" where
  "loop resolve subn loads wsroot claude codex st =
     (if turn st < TURN_LIMIT then
        (case turn_body resolve subn loads wsroot claude codex st of
           Stop x st' \<Rightarrow> (x, st')
         | Continue st' \<Rightarrow> loop resolve subn loads wsroot claude codex st')
      else (Exhausted, st))"
  by pat_completeness auto
termination
  by (relation "measure (\<lambda>(resolve, subn, loads, wsroot, claude, codex, st). TURN_LIMIT - turn st)")
     (auto simp: turn_body_def Let_def split: sum.splits prod.splits if_splits)

declare loop.simps [simp del]

text \<open>
  After the loop (\<^verbatim>\<open>FIN SANS DOUBLE 5/5\<close>). \<^verbatim>\<open>last_codex\<close> is bound to the empty dict
  before the loop and never again. The user's answer is \<open>None\<close> at end of input.
\<close>

definition last_codex :: json where
  "last_codex = JDict []"

definition lower :: "string \<Rightarrow> string" where
  "lower s = map (\<lambda>c. if (65 \<le> (of_char c :: nat) \<and> (of_char c :: nat) \<le> 90)
                            \<or> (192 \<le> (of_char c :: nat) \<and> (of_char c :: nat) \<le> 222
                                \<and> (of_char c :: nat) \<noteq> 215)
                         then char_of ((of_char c :: nat) + 32) else c) s"

datatype final = Commit | ManualApplied | NotApplied | NothingProposed | Crashed exn | Exit1

definition after_loop ::
  "(path \<Rightarrow> exn + path) \<Rightarrow> subn_fun \<Rightarrow> path \<Rightarrow> string option \<Rightarrow> state \<Rightarrow> final \<times> state" where
  "after_loop resolve subn wsroot answer st =
     (let st1 = st\<lparr>trace := trace st @ [Limite]\<rparr> in
      case (if truthy last_codex then py_get last_codex ''changes'' JNull
            else (case d_changes st1 of None \<Rightarrow> Inl UnboundLocalErr | Some d \<Rightarrow> Inr d)) of
        Inl e \<Rightarrow> (Crashed e, st1)
      | Inr cand0 \<Rightarrow>
     (case (if \<not> truthy cand0
            then (case c_changes st1 of None \<Rightarrow> Inl UnboundLocalErr | Some c \<Rightarrow> Inr c)
            else Inr cand0) of
        Inl e \<Rightarrow> (Crashed e, st1)
      | Inr candidate \<Rightarrow>
     if truthy candidate then
       (let st2 = st1\<lparr>trace := trace st1 @ [Apercu candidate]\<rparr>;
            ans = (case answer of None \<Rightarrow> ''n'' | Some a \<Rightarrow> lower (strip a)) in
        if ans = ''o'' then
          (case apply_changes resolve subn wsroot (files st2) candidate of
             (Inl e, fs') \<Rightarrow> (Crashed e, st2\<lparr>files := fs'\<rparr>)
           | (Inr logs, fs') \<Rightarrow>
               (ManualApplied,
                st2\<lparr>files := fs', trace := trace st2 @ [Logs logs, AppliqueesManuel]\<rparr>))
        else (NotApplied, st2\<lparr>trace := trace st2 @ [AucuneAppliquee]\<rparr>))
     else (NothingProposed, st1\<lparr>trace := trace st1 @ [AucuneProposee]\<rparr>)))"

text \<open>
  \<^verbatim>\<open>main\<close>, from the check of the workspace root on. \<open>question\<close> is the user's question as
  read (the arguments joined, or the stripped input line).
\<close>

definition init :: "fs \<Rightarrow> state" where
  "init fs = \<lparr>turn = 0, c_changes = None, d_changes = None, files = fs, trace = []\<rparr>"

definition main ::
  "(path \<Rightarrow> exn + path) \<Rightarrow> subn_fun \<Rightarrow> (string \<Rightarrow> json option) \<Rightarrow> path \<Rightarrow> fs \<Rightarrow> string \<Rightarrow>
   (nat \<Rightarrow> reply) \<Rightarrow> (nat \<Rightarrow> reply) \<Rightarrow> string option \<Rightarrow> final \<times> state" where
  "main resolve subn loads wsroot fs question claude codex answer =
     (if node_at fs wsroot = None then (Exit1, (init fs)\<lparr>trace := [RootIntrouvable]\<rparr>)
      else if question = [] then (Exit1, (init fs)\<lparr>trace := [QuestionVide]\<rparr>)
      else
        (case loop resolve subn loads wsroot claude codex (init fs) of
           (Returned, st) \<Rightarrow> (Commit, st)
         | (Raised e, st) \<Rightarrow> (Crashed e, st)
         | (x, st) \<Rightarrow> after_loop resolve subn wsroot answer st))"

section \<open>The standard library on the inputs of the scenarios\<close>

text \<open>
  The theorems below hold for every \<open>resolve\<close>, \<open>subn\<close> and \<open>loads\<close>. To run the program
  on concrete inputs, this section gives the three library functions on a fragment of
  their domain: \<open>json_loads\<close> is \<^verbatim>\<open>json.loads\<close> on ASCII texts whose strings have no
  \<^verbatim>\<open>\u\<close> escape and whose numbers have no fraction and no exponent (it answers \<open>None\<close>
  outside the fragment, so it is to be used inside only); \<open>subn_literal\<close> is \<^verbatim>\<open>re.subn\<close>
  for a pattern without any special character; \<open>resolve_nolinks\<close> above is
  \<^verbatim>\<open>Path.resolve\<close> where no link is met.
\<close>

definition json_ws :: "char \<Rightarrow> bool" where
  "json_ws c = (c = CHR '' '' \<or> c = CHR 0x09 \<or> c = CHR 0x0A \<or> c = CHR 0x0D)"

definition skip_ws :: "string \<Rightarrow> string" where
  "skip_ws s = dropWhile json_ws s"

fun unescape :: "char \<Rightarrow> char option" where
  "unescape c =
     (if c = CHR 0x22 \<or> c = CHR 0x5C \<or> c = CHR ''/'' then Some c
      else if c = CHR ''b'' then Some (CHR 0x08)
      else if c = CHR ''f'' then Some (CHR 0x0C)
      else if c = CHR ''n'' then Some (CHR 0x0A)
      else if c = CHR ''r'' then Some (CHR 0x0D)
      else if c = CHR ''t'' then Some (CHR 0x09)
      else None)"

text \<open>The body of a string, after its opening quote: the string and what follows it.\<close>

fun scan_string :: "string \<Rightarrow> string \<Rightarrow> (string \<times> string) option" where
  "scan_string acc [] = None"
| "scan_string acc [c] = (if c = CHR 0x22 then Some (rev acc, []) else None)"
| "scan_string acc (c # e # rest) =
     (if c = CHR 0x22 then Some (rev acc, e # rest)
      else if c = CHR 0x5C then
        (case unescape e of None \<Rightarrow> None | Some x \<Rightarrow> scan_string (x # acc) rest)
      else if (of_char c :: nat) < 32 then None
      else scan_string (c # acc) (e # rest))"

definition digits_nat :: "string \<Rightarrow> nat" where
  "digits_nat ds = foldl (\<lambda>a c. a * 10 + (of_char c - 48)) 0 ds"

definition scan_int :: "string \<Rightarrow> (json \<times> string) option" where
  "scan_int s =
     (let neg = (s \<noteq> [] \<and> hd s = CHR ''-'');
          t = (if neg then tl s else s);
          ds = (if t \<noteq> [] \<and> hd t = CHR ''0'' then ''0'' else takeWhile is_digit t);
          rest = drop (length ds) t
      in if ds = [] then None
         else if rest \<noteq> [] \<and> (hd rest = CHR ''.'' \<or> hd rest = CHR ''e'' \<or> hd rest = CHR ''E'') then None
         else Some (JInt (if neg then - int (digits_nat ds) else int (digits_nat ds)), rest))"

text \<open>Assignment to a key of a dict: a key already present keeps its place.\<close>

fun dict_set :: "string \<Rightarrow> json \<Rightarrow> (string \<times> json) list \<Rightarrow> (string \<times> json) list" where
  "dict_set k v [] = [(k, v)]"
| "dict_set k v ((k', v') # kvs) =
     (if k = k' then (k, v) # kvs else (k', v') # dict_set k v kvs)"

text \<open>
  The decoder. Its first argument bounds the number of nested calls; \<open>json_loads\<close> starts
  it with the length of the text plus two.
\<close>

fun parse_value :: "nat \<Rightarrow> string \<Rightarrow> (json \<times> string) option"
  and parse_members :: "nat \<Rightarrow> (string \<times> json) list \<Rightarrow> string \<Rightarrow> (json \<times> string) option"
  and parse_elems :: "nat \<Rightarrow> json list \<Rightarrow> string \<Rightarrow> (json \<times> string) option" where
  "parse_value 0 s = None"
| "parse_value (Suc k) s =
     (case s of
        [] \<Rightarrow> None
      | c # cs \<Rightarrow>
          if c = CHR 0x22 then
            (case scan_string [] cs of None \<Rightarrow> None | Some (str, rest) \<Rightarrow> Some (JStr str, rest))
          else if c = CHR ''{'' then
            (case skip_ws cs of
               [] \<Rightarrow> None
             | x # xs \<Rightarrow> if x = CHR ''}'' then Some (JDict [], xs) else parse_members k [] (x # xs))
          else if c = CHR ''['' then
            (case skip_ws cs of
               [] \<Rightarrow> None
             | x # xs \<Rightarrow> if x = CHR '']'' then Some (JList [], xs) else parse_elems k [] (x # xs))
          else if is_prefix ''null'' s then Some (JNull, drop 4 s)
          else if is_prefix ''true'' s then Some (JBool True, drop 4 s)
          else if is_prefix ''false'' s then Some (JBool False, drop 5 s)
          else if c = CHR ''-'' \<or> is_digit c then
            (case scan_int s of
               Some r \<Rightarrow> Some r
             | None \<Rightarrow> if is_prefix ''-Infinity'' s then Some (JFloat NegInf, drop 9 s) else None)
          else if is_prefix ''NaN'' s then Some (JFloat NaN, drop 3 s)
          else if is_prefix ''Infinity'' s then Some (JFloat PosInf, drop 8 s)
          else None)"
| "parse_members 0 acc s = None"
| "parse_members (Suc k) acc s =
     (case s of
        [] \<Rightarrow> None
      | c # cs \<Rightarrow>
          if c \<noteq> CHR 0x22 then None
          else
            (case scan_string [] cs of
               None \<Rightarrow> None
             | Some (key, r1) \<Rightarrow>
                 (case skip_ws r1 of
                    [] \<Rightarrow> None
                  | c1 # r2 \<Rightarrow>
                      if c1 \<noteq> CHR '':'' then None
                      else
                        (case parse_value k (skip_ws r2) of
                           None \<Rightarrow> None
                         | Some (v, r3) \<Rightarrow>
                             (case skip_ws r3 of
                                [] \<Rightarrow> None
                              | c3 # r4 \<Rightarrow>
                                  if c3 = CHR ''}'' then Some (JDict (dict_set key v acc), r4)
                                  else if c3 = CHR '','' then
                                    parse_members k (dict_set key v acc) (skip_ws r4)
                                  else None)))))"
| "parse_elems 0 acc s = None"
| "parse_elems (Suc k) acc s =
     (case parse_value k s of
        None \<Rightarrow> None
      | Some (v, r1) \<Rightarrow>
          (case skip_ws r1 of
             [] \<Rightarrow> None
           | c1 # r2 \<Rightarrow>
               if c1 = CHR '']'' then Some (JList (acc @ [v]), r2)
               else if c1 = CHR '','' then parse_elems k (acc @ [v]) (skip_ws r2)
               else None))"

definition json_loads :: "string \<Rightarrow> json option" where
  "json_loads s =
     (case parse_value (Suc (Suc (length s))) (skip_ws s) of
        None \<Rightarrow> None
      | Some (v, rest) \<Rightarrow> if skip_ws rest = [] then Some v else None)"

text \<open>
  \<^verbatim>\<open>re.subn\<close> for a pattern in which every character stands for itself. The replacement is
  a template: the module reads its backslash escapes before any match is replaced, and
  raises \<^verbatim>\<open>re.error\<close> on a bad one. Such a pattern has no group, so the only group a
  template may name is group 0, the match itself.
\<close>

definition re_special :: "char \<Rightarrow> bool" where
  "re_special c = (c = CHR 0x5C \<or> c \<in> set ''.^$*+?{}[]|()'')"

definition is_octdigit :: "char \<Rightarrow> bool" where
  "is_octdigit c = (48 \<le> (of_char c :: nat) \<and> (of_char c :: nat) \<le> 55)"

definition is_letter :: "char \<Rightarrow> bool" where
  "is_letter c = (let n = (of_char c :: nat) in (65 \<le> n \<and> n \<le> 90) \<or> (97 \<le> n \<and> n \<le> 122))"

definition octal_nat :: "string \<Rightarrow> nat" where
  "octal_nat ds = foldl (\<lambda>a c. a * 8 + (of_char c - 48)) 0 ds"

fun template_escape :: "char \<Rightarrow> char option" where
  "template_escape c =
     (if c = CHR ''a'' then Some (CHR 0x07)
      else if c = CHR ''b'' then Some (CHR 0x08)
      else if c = CHR ''f'' then Some (CHR 0x0C)
      else if c = CHR ''n'' then Some (CHR 0x0A)
      else if c = CHR ''r'' then Some (CHR 0x0D)
      else if c = CHR ''t'' then Some (CHR 0x09)
      else if c = CHR ''v'' then Some (CHR 0x0B)
      else if c = CHR 0x5C then Some (CHR 0x5C)
      else None)"

text \<open>
  \<open>expand_template m t\<close>: the text that replaces a match \<open>m\<close> under the template \<open>t\<close>.
  \<^verbatim>\<open>\g<name>\<close> with an unknown name raises IndexError, which is not a \<^verbatim>\<open>re.error\<close>.
\<close>

fun expand_template :: "string \<Rightarrow> string \<Rightarrow> exn + string" where
  "expand_template m [] = Inr []"
| "expand_template m [c] =
     (if c = CHR 0x5C then Inl (ReError ''bad escape (end of pattern)'') else Inr [c])"
| "expand_template m (c # e # rest) =
     (if c \<noteq> CHR 0x5C then
        (case expand_template m (e # rest) of Inl x \<Rightarrow> Inl x | Inr out \<Rightarrow> Inr (c # out))
      else if e = CHR ''g'' then
        (case rest of
           [] \<Rightarrow> Inl (ReError ''missing <'')
         | lt # rest1 \<Rightarrow>
             if lt \<noteq> CHR ''<'' then Inl (ReError ''missing <'')
             else
               (let name = takeWhile (\<lambda>x. x \<noteq> CHR ''>'') rest1;
                    rest2 = drop (Suc (length name)) rest1 in
                if length name = length rest1 then Inl (ReError ''missing >, unterminated name'')
                else if name = [] then Inl (ReError ''missing group name'')
                else if list_all is_digit name then
                  (if digits_nat name = 0 then
                     (case expand_template m rest2 of Inl x \<Rightarrow> Inl x | Inr out \<Rightarrow> Inr (m @ out))
                   else Inl (ReError ''invalid group reference''))
                else if (is_letter (hd name) \<or> hd name = CHR ''_'')
                        \<and> list_all (\<lambda>x. is_letter x \<or> is_digit x \<or> x = CHR ''_'') name
                then Inl IndexErr
                else Inl (ReError ''bad character in group name'')))
      else if e = CHR ''0'' then
        (let ds = takeWhile is_octdigit (take 2 rest) in
         case expand_template m (drop (length ds) rest) of
           Inl x \<Rightarrow> Inl x
         | Inr out \<Rightarrow> Inr (char_of (octal_nat ds) # out))
      else if is_digit e then
        (if 2 \<le> length rest \<and> is_octdigit e \<and> is_octdigit (hd rest) \<and> is_octdigit (hd (tl rest)) then
           (if 255 < octal_nat (e # take 2 rest) then Inl (ReError ''octal escape value outside of range'')
            else
              (case expand_template m (drop 2 rest) of
                 Inl x \<Rightarrow> Inl x
               | Inr out \<Rightarrow> Inr (char_of (octal_nat (e # take 2 rest)) # out)))
         else Inl (ReError ''invalid group reference''))
      else
        (case template_escape e of
           Some x \<Rightarrow>
             (case expand_template m rest of Inl y \<Rightarrow> Inl y | Inr out \<Rightarrow> Inr (x # out))
         | None \<Rightarrow>
             if is_letter e then Inl (ReError ''bad escape'')
             else (case expand_template m rest of Inl y \<Rightarrow> Inl y | Inr out \<Rightarrow> Inr (c # e # out))))"

text \<open>All the occurrences of a non-empty literal, left to right, without overlap.\<close>

fun sub_all :: "string \<Rightarrow> string \<Rightarrow> string \<Rightarrow> string \<times> nat" where
  "sub_all f r [] = ([], 0)"
| "sub_all f r (x # xs) =
     (if f \<noteq> [] \<and> is_prefix f (x # xs) then
        (case sub_all f r (drop (length f - 1) xs) of (t, n) \<Rightarrow> (r @ t, Suc n))
      else (case sub_all f r xs of (t, n) \<Rightarrow> (x # t, n)))"

definition subn_literal :: subn_fun where
  "subn_literal pat repl text =
     (case pat of
        JStr f \<Rightarrow>
          if list_ex re_special f then Inl (ReError ''pattern outside the literal fragment'')
          else
            (case repl of
               JStr t \<Rightarrow>
                 (case expand_template f t of
                    Inl e \<Rightarrow> Inl e
                  | Inr r \<Rightarrow>
                      if f = [] then Inr (r @ concat (map (\<lambda>c. c # r) text), Suc (length text))
                      else Inr (sub_all f r text))
             | _ \<Rightarrow> Inl TypeErr)
      | _ \<Rightarrow> Inl TypeErr)"

section \<open>A workspace for the scenarios\<close>

definition ws :: path where
  "ws = [''/'', ''ws'']"

definition fs0 :: fs where
  "fs0 = [[''/'', ''ws''] \<mapsto> Dir, [''/'', ''ws'', ''notes.txt''] \<mapsto> File ''old'',
          [''/'', ''ws'', ''log.txt''] \<mapsto> File ''ab-ab-ab'',
          [''/'', ''ws'', ''dos.txt''] \<mapsto> File (''x'' @ [CHR 0x0D, CHR 0x0A] @ ''ab-ab'')]"

definition hello_edit :: json where
  "hello_edit = JDict [(''action'', JStr ''replace''), (''path'', JStr ''notes.txt''),
                       (''content'', JStr ''hello'')]"

section \<open>Basic facts\<close>


lemma joinpath_empty: "joinpath wsroot [] = wsroot"
  by (simp add: joinpath_def parse_parts_def)









lemma apply_each_length:
  "length (fst (apply_each resolve subn wsroot fs ops)) = length ops"
proof (induction ops arbitrary: fs)
  case Nil
  then show ?case by simp
next
  case (Cons a ops)
  obtain r fs1 where a: "apply_change resolve subn wsroot fs a = (r, fs1)"
    by (cases "apply_change resolve subn wsroot fs a") auto
  obtain logs fs2 where b: "apply_each resolve subn wsroot fs1 ops = (logs, fs2)"
    by (cases "apply_each resolve subn wsroot fs1 ops") auto
  have "length logs = length ops"
    using Cons.IH [of fs1] b by simp
  then show ?case
    using a b by simp
qed

lemma turn_body_undecided:
  assumes "ask_claude loads (claude (turn st)) = Inr cj" "score_of cj = Inr cs" "changes_of cj = Inr cc"
    and "ask_codex loads (codex (turn st)) = Inr dj" "score_of dj = Inr ds" "changes_of dj = Inr dc"
    and "\<not> (cs = 5 \<and> ds = 5)"
  shows "turn_body resolve subn loads wsroot claude codex st
         = Continue (st\<lparr>turn := Suc (turn st), c_changes := Some cc, d_changes := Some dc,
                         trace := trace st @ [CallClaude (turn st), CallCodex (turn st)]\<rparr>)"
  using assms by (auto simp: turn_body_def Let_def)

lemma loop_undecided_prefix:
  assumes "\<forall>t. turn st \<le> t \<and> t < k \<longrightarrow>
             ask_claude loads (claude t) = Inr (cj t) \<and> score_of (cj t) = Inr (cs t)
           \<and> changes_of (cj t) = Inr (cc t)
           \<and> ask_codex loads (codex t) = Inr (dj t) \<and> score_of (dj t) = Inr (ds t)
           \<and> changes_of (dj t) = Inr (dc t) \<and> \<not> (cs t = 5 \<and> ds t = 5)"
    and "turn st \<le> k" "k \<le> TURN_LIMIT"
  shows "loop resolve subn loads wsroot claude codex st
         = loop resolve subn loads wsroot claude codex
             (st\<lparr>turn := k,
                 c_changes := (if turn st < k then Some (cc (k - 1)) else c_changes st),
                 d_changes := (if turn st < k then Some (dc (k - 1)) else d_changes st),
                 trace := trace st @ concat (map (\<lambda>t. [CallClaude t, CallCodex t]) [turn st..<k])\<rparr>)"
  using assms
proof (induction "k - turn st" arbitrary: st)
  case 0
  then have "k = turn st" by simp
  then show ?case by simp
next
  case (Suc n)
  then have lt: "turn st < k" by simp
  let ?st' = "st\<lparr>turn := Suc (turn st), c_changes := Some (cc (turn st)),
                  d_changes := Some (dc (turn st)),
                  trace := trace st @ [CallClaude (turn st), CallCodex (turn st)]\<rparr>"
  have now: "ask_claude loads (claude (turn st)) = Inr (cj (turn st))"
    "score_of (cj (turn st)) = Inr (cs (turn st))" "changes_of (cj (turn st)) = Inr (cc (turn st))"
    "ask_codex loads (codex (turn st)) = Inr (dj (turn st))"
    "score_of (dj (turn st)) = Inr (ds (turn st))" "changes_of (dj (turn st)) = Inr (dc (turn st))"
    "\<not> (cs (turn st) = 5 \<and> ds (turn st) = 5)"
    using Suc.prems(1) lt by auto
  have body: "turn_body resolve subn loads wsroot claude codex st = Continue ?st'"
    using now
    by (rule turn_body_undecided [where st = st and cj = "cj (turn st)" and cs = "cs (turn st)"
          and cc = "cc (turn st)" and dj = "dj (turn st)" and ds = "ds (turn st)"
          and dc = "dc (turn st)"])
  have one: "loop resolve subn loads wsroot claude codex st
           = loop resolve subn loads wsroot claude codex ?st'"
    using lt Suc.prems(3) body by (subst loop.simps) simp
  have rest: "loop resolve subn loads wsroot claude codex ?st'
         = loop resolve subn loads wsroot claude codex
             (?st'\<lparr>turn := k,
                 c_changes := (if turn ?st' < k then Some (cc (k - 1)) else c_changes ?st'),
                 d_changes := (if turn ?st' < k then Some (dc (k - 1)) else d_changes ?st'),
                 trace := trace ?st' @ concat (map (\<lambda>t. [CallClaude t, CallCodex t]) [turn ?st'..<k])\<rparr>)"
  proof (rule Suc.hyps(1))
    show "n = k - turn ?st'" using Suc.hyps(2) by simp
    show "\<forall>t. turn ?st' \<le> t \<and> t < k \<longrightarrow>
             ask_claude loads (claude t) = Inr (cj t) \<and> score_of (cj t) = Inr (cs t)
           \<and> changes_of (cj t) = Inr (cc t)
           \<and> ask_codex loads (codex t) = Inr (dj t) \<and> score_of (dj t) = Inr (ds t)
           \<and> changes_of (dj t) = Inr (dc t) \<and> \<not> (cs t = 5 \<and> ds t = 5)"
      using Suc.prems(1) by simp
    show "turn ?st' \<le> k" using lt by simp
    show "k \<le> TURN_LIMIT" by (rule Suc.prems(3))
  qed
  have last: "\<not> Suc (turn st) < k \<Longrightarrow> k - 1 = turn st"
    using lt by simp
  have upt: "[turn st..<k] = turn st # [Suc (turn st)..<k]"
    using lt by (simp add: upt_conv_Cons)
  show ?case
    unfolding one rest using lt last by (simp add: upt)
qed

lemma loop_at_limit:
  "turn st = TURN_LIMIT \<Longrightarrow> loop resolve subn loads wsroot claude codex st = (Exhausted, st)"
  by (subst loop.simps) simp

lemma apply_changes_list:
  "apply_changes resolve subn wsroot fs (JList ops)
   = (Inr (fst (apply_each resolve subn wsroot fs ops)), snd (apply_each resolve subn wsroot fs ops))"
proof -
  have "py_iter (py_or (JList ops) (JList [])) = Inr ops"
    by (cases ops) (simp_all add: py_or_def)
  then show ?thesis
    by (simp add: apply_changes_def split: prod.splits)
qed

lemma after_loop_trace:
  "\<exists>rest. trace (snd (after_loop resolve subn wsroot answer st)) = trace st @ Limite # rest
      \<and> (\<forall>t. CallClaude t \<notin> set rest \<and> CallCodex t \<notin> set rest)"
  by (auto simp: after_loop_def last_codex_def Let_def split: prod.splits sum.splits option.splits)

lemma after_loop_declined:
  "answer = None \<or> lower (strip (the answer)) \<noteq> ''o'' \<Longrightarrow>
   files (snd (after_loop resolve subn wsroot answer st)) = files st"
  by (auto simp: after_loop_def last_codex_def Let_def split: prod.splits sum.splits option.splits)

lemma after_loop_unbound:
  "d_changes st = None \<Longrightarrow>
   after_loop resolve subn wsroot answer st = (Crashed UnboundLocalErr, st\<lparr>trace := trace st @ [Limite]\<rparr>)"
  by (simp add: after_loop_def last_codex_def Let_def)

lemma apply_each_lines:
  "apply_each resolve subn wsroot fs ops
   = (map (\<lambda>i. case fst (apply_change resolve subn wsroot
                            (foldl (\<lambda>f op. snd (apply_change resolve subn wsroot f op)) fs (take i ops))
                            (ops ! i)) of
                   Inl e \<Rightarrow> (False, Erreur e) | Inr (ok, m) \<Rightarrow> (ok, Msg m))
          [0..<length ops],
      foldl (\<lambda>f op. snd (apply_change resolve subn wsroot f op)) fs ops)"
proof (induction ops arbitrary: fs)
  case Nil
  then show ?case by simp
next
  case (Cons op ops)
  obtain r fs1 where a: "apply_change resolve subn wsroot fs op = (r, fs1)"
    by (cases "apply_change resolve subn wsroot fs op") auto
  have upt: "[0..<length (op # ops)] = 0 # map Suc [0..<length ops]"
    by (simp add: upt_conv_Cons map_Suc_upt del: upt_Suc)
  show ?case
    unfolding upt using a Cons.IH [of fs1] by (simp add: comp_def)
qed

lemma int_digits_all:
  "list_all is_digit ds \<Longrightarrow> ds \<noteq> [] \<or> prev \<Longrightarrow>
   int_digits prev acc ds = Some (foldl (\<lambda>a c. a * 10 + (of_char c - 48)) acc ds)"
proof (induction ds arbitrary: prev acc)
  case Nil
  then show ?case by simp
next
  case (Cons c cs)
  then show ?case by simp
qed

lemma digit_not_int_space: "is_digit c \<Longrightarrow> \<not> int_space c"
  by (auto simp: is_digit_def int_space_def Let_def)

lemma int_of_str_literal:
  assumes sp: "list_all int_space sp1" "list_all int_space sp2"
    and sg: "sg \<in> {[], ''+'', ''-''}"
    and ds: "ds \<noteq> []" "list_all is_digit ds" "length ds \<le> int_max_str_digits"
  shows "int_of_str (sp1 @ sg @ ds @ sp2)
         = Inr (if sg = ''-'' then - int (digits_nat ds) else int (digits_nat ds))"
proof -
  obtain d ds' where dsc: "ds = d # ds'"
    using ds(1) by (cases ds) auto
  obtain l ds'' where dsl: "ds = ds'' @ [l]"
    using ds(1) by (cases ds rule: rev_cases) auto
  have dd: "is_digit d"
    using ds(2) dsc by simp
  have dl: "is_digit l"
    using ds(2) unfolding dsl by simp
  have nsp: "\<not> int_space (hd (sg @ ds))"
    using sg dd dsc digit_not_int_space [OF dd] by (auto simp: int_space_def Let_def)
  have core: "sg @ ds \<noteq> []"
    using ds(1) by simp
  have front: "dropWhile int_space (sp1 @ sg @ ds @ sp2) = sg @ ds @ sp2"
  proof -
    have "dropWhile int_space (sp1 @ (sg @ ds @ sp2)) = dropWhile int_space (sg @ ds @ sp2)"
      using sp(1) by (intro dropWhile_append2) (simp add: list_all_iff)
    moreover have "dropWhile int_space (sg @ ds @ sp2) = sg @ ds @ sp2"
    proof -
      obtain a rest where ar: "sg @ ds = a # rest"
        using core by (cases "sg @ ds") auto
      have na: "\<not> int_space a"
        using nsp ar by simp
      have e: "sg @ ds @ sp2 = a # (rest @ sp2)"
        using ar by (metis append_Cons append_assoc)
      show ?thesis
        unfolding e using na by simp
    qed
    ultimately show ?thesis by simp
  qed
  have rear: "dropWhile int_space (rev (sg @ ds @ sp2)) = rev (sg @ ds)"
  proof -
    have "dropWhile int_space (rev sp2 @ rev (sg @ ds)) = dropWhile int_space (rev (sg @ ds))"
      using sp(2) by (intro dropWhile_append2) (simp add: list_all_iff)
    moreover have "rev (sg @ ds) = l # rev ds'' @ rev sg"
      using dsl by simp
    ultimately show ?thesis
      using digit_not_int_space [OF dl] by simp
  qed
  have stripped: "rev (dropWhile int_space (rev (dropWhile int_space (sp1 @ sg @ ds @ sp2)))) = sg @ ds"
    unfolding front rear by simp
  have sgnd: "filter is_digit sg = []"
    using sg by (auto simp: is_digit_def)
  have cnt: "filter is_digit (sg @ ds) = ds"
    using ds(2) sgnd by (simp add: list_all_iff)
  have val: "int_digits False 0 ds = Some (digits_nat ds)"
    using int_digits_all [of ds False 0] ds by (simp add: digits_nat_def)
  have dne: "d \<noteq> CHR ''-''" "d \<noteq> CHR ''+''"
    using dd by (auto simp: is_digit_def)
  show ?thesis
    using sg
  proof (elim insertE)
    assume "sg = []"
    then show ?thesis
      using stripped cnt val ds(3) dsc dne by (simp add: int_of_str_def)
  next
    assume "sg = ''+''"
    then show ?thesis
      using stripped cnt val ds(3) by (simp add: int_of_str_def)
  next
    assume "sg = ''-''"
    then show ?thesis
      using stripped cnt val ds(3) by (simp add: int_of_str_def)
  qed simp
qed

section \<open>The path guard\<close>

text \<open>
  Claim C2. Take an edit that has an action and whose path is a string. If that path,
  joined to the workspace root and resolved, is neither the root nor below it, then
  \<open>apply_change\<close> raises the path-escape error and the batch applier logs it as a failed
  edit; in both cases the file system is left as it was. The root itself is a resolved
  path (\<^verbatim>\<open>WORKSPACE_ROOT = Path(...).resolve()\<close>), so an empty path never escapes.
\<close>

theorem path_escape_rejected:
  assumes action: "py_get change ''action'' JNull = Inr action" "truthy action"
    and path: "py_get change ''path'' JNull = Inr (JStr s)"
    and rootres: "resolve wsroot = Inr wsroot"
    and res: "resolve (joinpath wsroot s) = Inr p"
    and out: "p \<noteq> wsroot" "wsroot \<notin> set (parents p)"
  shows "apply_change resolve subn wsroot fs change = (Inl (PathEscape p), fs)
       \<and> apply_changes resolve subn wsroot fs (JList [change])
           = (Inr [(False, Erreur (PathEscape p))], fs)"
proof -
  have ne: "s \<noteq> []"
    using rootres res out(1) by (auto simp: joinpath_empty)
  obtain kvs where kvs: "change = JDict kvs"
    using action(1) by (cases change) auto
  have guard: "safe_relpath resolve wsroot (JStr s) = Inl (PathEscape p)"
    using res out by (simp add: safe_relpath_def)
  have one: "apply_change resolve subn wsroot fs change = (Inl (PathEscape p), fs)"
    using action path ne guard kvs by (simp add: apply_change_def)
  then show ?thesis
    by (simp add: apply_changes_def py_or_def)
qed

text \<open>A path that climbs out with \<^verbatim>\<open>..\<close>, and an absolute path that overrides the root.\<close>

theorem path_escape_rejected_witness:
  "apply_change resolve_nolinks subn_literal ws fs0
     (JDict [(''action'', JStr ''replace''), (''path'', JStr ''docs/../../etc/passwd''),
             (''content'', JStr ''x'')])
   = (Inl (PathEscape [''/'', ''etc'', ''passwd'']), fs0)
   \<and> apply_changes resolve_nolinks subn_literal ws fs0
     (JList [JDict [(''action'', JStr ''replace''), (''path'', JStr ''docs/../../etc/passwd''),
                    (''content'', JStr ''x'')]])
   = (Inr [(False, Erreur (PathEscape [''/'', ''etc'', ''passwd'']))], fs0)
   \<and> apply_change resolve_nolinks subn_literal ws fs0
     (JDict [(''action'', JStr ''append''), (''path'', JStr ''/tmp/x''), (''content'', JStr ''x'')])
   = (Inl (PathEscape [''/'', ''tmp'', ''x'']), fs0)"
  using path_escape_rejected [where change = "JDict [(''action'', JStr ''replace''),
        (''path'', JStr ''docs/../../etc/passwd''), (''content'', JStr ''x'')]"
      and action = "JStr ''replace''" and s = "''docs/../../etc/passwd''"
      and resolve = resolve_nolinks and wsroot = ws and p = "[''/'', ''etc'', ''passwd'']"
      and subn = subn_literal and fs = fs0]
    path_escape_rejected [where change = "JDict [(''action'', JStr ''append''),
        (''path'', JStr ''/tmp/x''), (''content'', JStr ''x'')]"
      and action = "JStr ''append''" and s = "''/tmp/x''"
      and resolve = resolve_nolinks and wsroot = ws and p = "[''/'', ''tmp'', ''x'']"
      and subn = subn_literal and fs = fs0]
  by (simp add: ws_def resolve_nolinks_def joinpath_def parse_parts_def parents_def anchor_def)

section \<open>Directories are created before the operation is validated\<close>




section \<open>Literal patch blocks\<close>





section \<open>Where failures of an edit are caught\<close>

text \<open>
  Claim C1 says that \<open>apply_change\<close> returns every failure as a pair and never raises.
  It does raise: the path guard's error and the errors of the file system leave it as
  exceptions, here for a path that climbs out of the workspace and for a write onto the
  workspace directory itself.
\<close>

theorem apply_change_raises_on_escape:
  "fst (apply_change resolve_nolinks subn_literal ws fs0
          (JDict [(''action'', JStr ''replace''), (''path'', JStr ''../outside.txt''),
                  (''content'', JStr ''x'')]))
     = Inl (PathEscape [''/'', ''outside.txt''])
   \<and> fst (apply_change resolve_nolinks subn_literal ws fs0
          (JDict [(''action'', JStr ''replace''), (''path'', JStr ''.''), (''content'', JStr ''x'')]))
     = Inl IsADirectoryErr"
  by (simp add: apply_change_def safe_relpath_def ws_def resolve_nolinks_def joinpath_def
      parse_parts_def parents_def parent_def mkdir_parents_def dir_chain_def write_text_def
      node_at_def fs0_def upt_rec)

text \<open>
  Claim C1, amended. The boundary that nothing crosses is the batch applier: for every list
  of edits \<open>apply_changes\<close> raises nothing and returns one log line per edit, in order. The
  line of the edit at position \<open>i\<close> is the pair that \<open>apply_change\<close> returned for it, or a
  failure carrying the exception that \<open>apply_change\<close> raised, on the file system that the
  edits before it have left; the file system returned is the one left by the last edit.
\<close>

theorem batch_applier_never_raises:
  "apply_changes resolve subn wsroot fs (JList ops)
   = (Inr (map (\<lambda>i. case fst (apply_change resolve subn wsroot
                            (foldl (\<lambda>f op. snd (apply_change resolve subn wsroot f op)) fs (take i ops))
                            (ops ! i)) of
                   Inl e \<Rightarrow> (False, Erreur e) | Inr (ok, m) \<Rightarrow> (ok, Msg m))
          [0..<length ops]),
      foldl (\<lambda>f op. snd (apply_change resolve subn wsroot f op)) fs ops)"
  by (simp add: apply_changes_list apply_each_lines)

text \<open>
  Three edits: the first escapes the workspace, the second is applied, the third has an
  unknown action. Each has its own line, and the second one's write is there at the end.
\<close>

theorem batch_applier_never_raises_witness:
  "fst (apply_changes resolve_nolinks subn_literal ws fs0
     (JList [JDict [(''action'', JStr ''replace''), (''path'', JStr ''../outside.txt''),
                    (''content'', JStr ''x'')],
             hello_edit,
             JDict [(''action'', JStr ''rename''), (''path'', JStr ''notes.txt'')]]))
   = Inr [(False, Erreur (PathEscape [''/'', ''outside.txt''])),
          (True, Msg (Replaced (JStr ''notes.txt''))),
          (False, Msg (ActionInconnue (JStr ''rename'')))]
   \<and> snd (apply_changes resolve_nolinks subn_literal ws fs0
     (JList [JDict [(''action'', JStr ''replace''), (''path'', JStr ''../outside.txt''),
                    (''content'', JStr ''x'')],
             hello_edit,
             JDict [(''action'', JStr ''rename''), (''path'', JStr ''notes.txt'')]]))
       [''/'', ''ws'', ''notes.txt'']
   = Some (File ''hello'')"
proof -
  let ?a = "JDict [(''action'', JStr ''replace''), (''path'', JStr ''../outside.txt''),
                    (''content'', JStr ''x'')]"
  let ?c = "JDict [(''action'', JStr ''rename''), (''path'', JStr ''notes.txt'')]"
  let ?step = "\<lambda>f op. snd (apply_change resolve_nolinks subn_literal ws f op)"
  have a: "apply_change resolve_nolinks subn_literal ws fs0 ?a
      = (Inl (PathEscape [''/'', ''outside.txt'']), fs0)"
    by (simp add: apply_change_def safe_relpath_def ws_def resolve_nolinks_def joinpath_def
      parse_parts_def parents_def)
  have b: "fst (apply_change resolve_nolinks subn_literal ws fs0 hello_edit)
      = Inr (True, Replaced (JStr ''notes.txt''))"
    by code_simp
  have c: "fst (apply_change resolve_nolinks subn_literal ws
                  (snd (apply_change resolve_nolinks subn_literal ws fs0 hello_edit)) ?c)
      = Inr (False, ActionInconnue (JStr ''rename''))"
    by code_simp
  have d: "snd (apply_change resolve_nolinks subn_literal ws
                  (snd (apply_change resolve_nolinks subn_literal ws fs0 hello_edit)) ?c)
             [''/'', ''ws'', ''notes.txt''] = Some (File ''hello'')"
    by code_simp
  have idx: "[0..<length [?a, hello_edit, ?c]] = [0, 1, 2]"
    by (simp add: upt_rec)
  show ?thesis
    unfolding batch_applier_never_raises idx using a b c d by (simp add: numeral_2_eq_2)
qed

section \<open>Pattern patch blocks\<close>

text \<open>
  Claim C6 says that a \<^verbatim>\<open>patch_block\<close> with \<^verbatim>\<open>regex=true\<close> replaces the matches with the
  exact text of \<^verbatim>\<open>content\<close>. The code passes \<^verbatim>\<open>content\<close> to \<^verbatim>\<open>re.subn\<close> as the replacement
  template. On \<^verbatim>\<open>notes.txt\<close>, which holds \<^verbatim>\<open>old\<close>, with \<^verbatim>\<open>find = "old"\<close>: the two characters
  backslash and \<^verbatim>\<open>n\<close> are written as one line feed, where the literal mode writes the
  two characters; and backslash \<^verbatim>\<open>1\<close> makes the edit fail as an invalid pattern although
  the pattern is valid and matches.
\<close>

theorem regex_content_read_as_template:
  "fst (apply_change resolve_nolinks subn_literal ws fs0
          (JDict [(''action'', JStr ''patch_block''), (''path'', JStr ''notes.txt''),
                  (''content'', JStr [CHR 0x5C, CHR ''n'']), (''find'', JStr ''old''),
                  (''regex'', JBool True)]))
     = Inr (True, PatchedRegex 1 (JStr ''notes.txt''))
   \<and> snd (apply_change resolve_nolinks subn_literal ws fs0
          (JDict [(''action'', JStr ''patch_block''), (''path'', JStr ''notes.txt''),
                  (''content'', JStr [CHR 0x5C, CHR ''n'']), (''find'', JStr ''old''),
                  (''regex'', JBool True)])) [''/'', ''ws'', ''notes.txt'']
     = Some (File [CHR 0x0A])
   \<and> snd (apply_change resolve_nolinks subn_literal ws fs0
          (JDict [(''action'', JStr ''patch_block''), (''path'', JStr ''notes.txt''),
                  (''content'', JStr [CHR 0x5C, CHR ''n'']), (''find'', JStr ''old''),
                  (''regex'', JBool False)])) [''/'', ''ws'', ''notes.txt'']
     = Some (File [CHR 0x5C, CHR ''n''])
   \<and> fst (apply_change resolve_nolinks subn_literal ws fs0
          (JDict [(''action'', JStr ''patch_block''), (''path'', JStr ''notes.txt''),
                  (''content'', JStr [CHR 0x5C, CHR ''1'']), (''find'', JStr ''old''),
                  (''regex'', JBool True)]))
     = Inr (False, RegexInvalide ''invalid group reference'')"
  by (simp add: apply_change_def patch_block_def safe_relpath_def ws_def resolve_nolinks_def
      joinpath_def parse_parts_def parents_def parent_def mkdir_parents_def dir_chain_def
      write_text_def read_or_empty_def node_at_def fs0_def upt_rec subn_literal_def
      re_special_def is_digit_def is_octdigit_def is_letter_def)

text \<open>The two modes disagree on the same edit: the file written is not the same.\<close>

theorem regex_content_read_as_template_witness:
  "snd (apply_change resolve_nolinks subn_literal ws fs0
          (JDict [(''action'', JStr ''patch_block''), (''path'', JStr ''notes.txt''),
                  (''content'', JStr [CHR 0x5C, CHR ''n'']), (''find'', JStr ''old''),
                  (''regex'', JBool True)])) [''/'', ''ws'', ''notes.txt'']
   \<noteq> Some (File [CHR 0x5C, CHR ''n''])"
  using regex_content_read_as_template by simp

section \<open>What the response parser accepts\<close>

text \<open>
  Claim C5 says that the parser returns the first embedded span that decodes, whatever
  prose surrounds it. The only candidate runs from the first opening brace to the last
  closing brace of the whole text: the payload \<^verbatim>\<open>{"score": 5}\<close> decodes, but followed by
  prose that holds a closing brace it is not found.
\<close>

theorem greedy_span_misses_first_payload:
  \<open>json_loads ''{"score": 5}'' = Some (JDict [(''score'', JInt 5)])
   \<and> parse_first_json_block json_loads ''Voici: {"score": 5} (cf. {x})'' = Inl NoJson
   \<and> parse_first_json_block json_loads ''{"score": 5} puis {x}'' = Inl JSONDecodeError\<close>
  by code_simp

text \<open>The payload that decodes is not what the parser answers.\<close>

theorem greedy_span_misses_first_payload_witness:
  \<open>parse_first_json_block json_loads ''Voici: {"score": 5} (cf. {x})''
   \<noteq> Inr (JDict [(''score'', JInt 5)])\<close>
  using greedy_span_misses_first_payload by simp

section \<open>The score of a message\<close>

text \<open>
  Claim C9 says that a score outside 1..5 is a parse defect, never accepted silently. A
  message with score 7 is parsed and its score is 7.
\<close>

theorem out_of_range_score_accepted:
  \<open>ask_claude json_loads (Says ''{"score": 7, "changes": []}'')
     = Inr (JDict [(''score'', JInt 7), (''changes'', JList [])])
   \<and> score_of (JDict [(''score'', JInt 7), (''changes'', JList [])]) = Inr 7\<close>
  by code_simp

text \<open>
  Claim C9, amended. Take a parsed message whose \<^verbatim>\<open>score\<close> field is absent, an integer, a
  boolean, a finite float, or a string made of optional blanks, an optional sign and
  decimal digits (at most 4300). Its score is \<^verbatim>\<open>int()\<close> of that field, and 1 when the
  field is absent; nothing checks the range 1..5 and nothing clamps. An integer is taken
  as it is, whatever its value; a boolean becomes 0 or 1; a float is truncated towards
  zero; the string is read as the number it writes. A turn whose two scores are not both
  5 goes on to the next turn, with nothing reported.
\<close>

theorem score_coerced_without_range_check:
  "(map_of kvs ''score'' = None \<longrightarrow> score_of (JDict kvs) = Inr 1)
   \<and> (map_of kvs ''score'' = Some (JInt n) \<longrightarrow> score_of (JDict kvs) = Inr n)
   \<and> (map_of kvs ''score'' = Some (JBool b) \<longrightarrow> score_of (JDict kvs) = Inr (if b then 1 else 0))
   \<and> (map_of kvs ''score'' = Some (JFloat (Finite q)) \<longrightarrow>
        score_of (JDict kvs) = Inr (if 0 \<le> q then \<lfloor>q\<rfloor> else \<lceil>q\<rceil>))
   \<and> (map_of kvs ''score'' = Some (JStr (sp1 @ sg @ ds @ sp2))
        \<and> list_all int_space sp1 \<and> list_all int_space sp2 \<and> sg \<in> {[], ''+'', ''-''}
        \<and> ds \<noteq> [] \<and> list_all is_digit ds \<and> length ds \<le> int_max_str_digits \<longrightarrow>
        score_of (JDict kvs) = Inr (if sg = ''-'' then - int (digits_nat ds) else int (digits_nat ds)))
   \<and> (ask_claude loads (claude (turn st)) = Inr cj \<and> score_of cj = Inr c_score
        \<and> changes_of cj = Inr cc
        \<and> ask_codex loads (codex (turn st)) = Inr dj \<and> score_of dj = Inr d_score
        \<and> changes_of dj = Inr dc \<and> \<not> (c_score = 5 \<and> d_score = 5) \<longrightarrow>
        turn_body resolve subn loads wsroot claude codex st
        = Continue (st\<lparr>turn := Suc (turn st), c_changes := Some cc, d_changes := Some dc,
                        trace := trace st @ [CallClaude (turn st), CallCodex (turn st)]\<rparr>))"
proof (intro conjI impI)
  assume "map_of kvs ''score'' = Some (JStr (sp1 @ sg @ ds @ sp2))
        \<and> list_all int_space sp1 \<and> list_all int_space sp2 \<and> sg \<in> {[], ''+'', ''-''}
        \<and> ds \<noteq> [] \<and> list_all is_digit ds \<and> length ds \<le> int_max_str_digits"
  then show "score_of (JDict kvs) = Inr (if sg = ''-'' then - int (digits_nat ds) else int (digits_nat ds))"
    using int_of_str_literal [of sp1 sp2 sg ds] by (simp add: score_of_def)
next
  assume "ask_claude loads (claude (turn st)) = Inr cj \<and> score_of cj = Inr c_score
        \<and> changes_of cj = Inr cc
        \<and> ask_codex loads (codex (turn st)) = Inr dj \<and> score_of dj = Inr d_score
        \<and> changes_of dj = Inr dc \<and> \<not> (c_score = 5 \<and> d_score = 5)"
  then show "turn_body resolve subn loads wsroot claude codex st
        = Continue (st\<lparr>turn := Suc (turn st), c_changes := Some cc, d_changes := Some dc,
                        trace := trace st @ [CallClaude (turn st), CallCodex (turn st)]\<rparr>)"
    by (intro turn_body_undecided [where cj = cj and cs = c_score and dj = dj and ds = d_score]) simp_all
qed (simp_all add: score_of_def)

text \<open>
  The scores \<^verbatim>\<open>-3\<close>, \<^verbatim>\<open>true\<close>, \<^verbatim>\<open>4.7\<close> and \<^verbatim>\<open>" -12 "\<close>; and a turn with the scores 7 and \<^verbatim>\<open>"-12"\<close>.
\<close>

theorem score_coerced_without_range_check_witness:
  \<open>score_of (JDict [(''score'', JInt (- 3)), (''summary'', JStr ''x'')]) = Inr (- 3)
   \<and> score_of (JDict [(''summary'', JStr ''x'')]) = Inr 1
   \<and> score_of (JDict [(''score'', JBool True)]) = Inr 1
   \<and> score_of (JDict [(''score'', JFloat (Finite (47 / 10)))]) = Inr 4
   \<and> score_of (JDict [(''score'', JStr '' -12 '')]) = Inr (- 12)
   \<and> turn_body resolve_nolinks subn_literal json_loads ws
        (\<lambda>t. Says ''{"score": 7, "changes": []}'') (\<lambda>t. Says ''{"score": "-12", "changes": []}'') (init fs0)
      = Continue \<lparr>turn = 1, c_changes = Some (JList []), d_changes = Some (JList []),
                  files = fs0, trace = [CallClaude 0, CallCodex 0]\<rparr>\<close>
proof -
  let ?cj = "JDict [(''score'', JInt 7), (''changes'', JList [])]"
  let ?dj = "JDict [(''score'', JStr ''-12''), (''changes'', JList [])]"
  have c1: \<open>ask_claude json_loads (Says ''{"score": 7, "changes": []}'') = Inr ?cj\<close>
    by code_simp
  have c2: "score_of ?cj = Inr 7"
    by code_simp
  have c3: "changes_of ?cj = Inr (JList [])"
    by code_simp
  have d1: \<open>ask_codex json_loads (Says ''{"score": "-12", "changes": []}'') = Inr ?dj\<close>
    by code_simp
  have d2: "score_of ?dj = Inr (- 12)"
    by code_simp
  have d3: "changes_of ?dj = Inr (JList [])"
    by code_simp
  have dv: "digits_nat ''12'' = 12"
    by (simp add: digits_nat_def)
  have fl: "\<lfloor>47 / 10 :: rat\<rfloor> = 4"
    by (simp add: floor_eq_iff)
  note T = score_coerced_without_range_check
  show ?thesis
    using T [where kvs = "[(''score'', JInt (- 3)), (''summary'', JStr ''x'')]" and n = "- 3"]
      T [where kvs = "[(''summary'', JStr ''x'')]"]
      T [where kvs = "[(''score'', JBool True)]" and b = True]
      T [where kvs = "[(''score'', JFloat (Finite (47 / 10)))]" and q = "47 / 10"]
      T [where kvs = "[(''score'', JStr '' -12 '')]" and ?sp1.0 = "'' ''" and sg = "''-''"
           and ds = "''12''" and ?sp2.0 = "'' ''"]
      T [where st = "init fs0" and loads = json_loads and cj = ?cj and c_score = 7
           and cc = "JList []" and dj = ?dj and d_score = "- 12" and dc = "JList []"
           and claude = \<open>\<lambda>t. Says ''{"score": 7, "changes": []}''\<close>
           and codex = \<open>\<lambda>t. Says ''{"score": "-12", "changes": []}''\<close>
           and resolve = resolve_nolinks and subn = subn_literal and wsroot = ws]
      c1 c2 c3 d1 d2 d3
    by (simp add: dv fl init_def int_space_def is_digit_def int_max_str_digits_def)
qed

section \<open>Convergence\<close>

text \<open>
  Claim C3. Take a run whose turns before turn \<open>k\<close> each gave two messages with scores not
  both 5, and whose turn \<open>k\<close>, below the turn bound, gives two messages with score 5 whose
  changes are lists. Then the run ends in the commit of that same turn, after \<open>k + 1\<close> round
  trips and no further call: it applies the Reviewer's changes when that list is not empty
  and the Proposer's otherwise, one log line per edit, and the file system it leaves is
  the one the batch applier returns.
\<close>

theorem double_five_commits:
  assumes wsex: "node_at fs wsroot \<noteq> None" and quest: "question \<noteq> []"
    and und: "\<forall>t<k.
             ask_claude loads (claude t) = Inr (cj t) \<and> score_of (cj t) = Inr (cs t)
           \<and> changes_of (cj t) = Inr (cc t)
           \<and> ask_codex loads (codex t) = Inr (dj t) \<and> score_of (dj t) = Inr (ds t)
           \<and> changes_of (dj t) = Inr (dc t) \<and> \<not> (cs t = 5 \<and> ds t = 5)"
    and k: "k < TURN_LIMIT"
    and five: "ask_claude loads (claude k) = Inr cjk" "score_of cjk = Inr 5"
      "changes_of cjk = Inr (JList cops)"
      "ask_codex loads (codex k) = Inr djk" "score_of djk = Inr 5"
      "changes_of djk = Inr (JList dops)"
    and applied: "applied = (if dops \<noteq> [] then dops else cops)"
    and run: "run = main resolve subn loads wsroot fs question claude codex answer"
  shows "fst run = Commit
       \<and> files (snd run) = snd (apply_changes resolve subn wsroot fs (JList applied))
       \<and> (\<exists>logs. fst (apply_changes resolve subn wsroot fs (JList applied)) = Inr logs
            \<and> length logs = length applied
            \<and> trace (snd run) = concat (map (\<lambda>t. [CallClaude t, CallCodex t]) [0..<Suc k])
                                  @ [Double5, Logs logs, AppliqueesDouble5])"
proof -
  let ?rounds = "concat (map (\<lambda>t. [CallClaude t, CallCodex t]) [0..<k])"
  let ?stk = "\<lparr>turn = k, c_changes = (if 0 < k then Some (cc (k - 1)) else None),
               d_changes = (if 0 < k then Some (dc (k - 1)) else None), files = fs,
               trace = ?rounds\<rparr>"
  let ?logs = "fst (apply_each resolve subn wsroot fs applied)"
  let ?fs' = "snd (apply_each resolve subn wsroot fs applied)"
  have "loop resolve subn loads wsroot claude codex (init fs)
      = loop resolve subn loads wsroot claude codex
          ((init fs)\<lparr>turn := k,
             c_changes := (if turn (init fs) < k then Some (cc (k - 1)) else c_changes (init fs)),
             d_changes := (if turn (init fs) < k then Some (dc (k - 1)) else d_changes (init fs)),
             trace := trace (init fs) @ concat (map (\<lambda>t. [CallClaude t, CallCodex t]) [turn (init fs)..<k])\<rparr>)"
    using und k
    by (intro loop_undecided_prefix [where cj = cj and cs = cs and dj = dj and ds = ds])
       (simp_all add: init_def)
  also have "\<dots> = loop resolve subn loads wsroot claude codex ?stk"
    by (simp add: init_def)
  finally have pre: "loop resolve subn loads wsroot claude codex (init fs)
      = loop resolve subn loads wsroot claude codex ?stk" .
  have por: "py_or (JList dops) (JList cops) = JList applied"
    by (simp add: py_or_def applied)
  have body: "turn_body resolve subn loads wsroot claude codex ?stk
      = Stop Returned (?stk\<lparr>c_changes := Some (JList cops), d_changes := Some (JList dops),
           files := ?fs', trace := ?rounds @ [CallClaude k, CallCodex k, Double5, Logs ?logs, AppliqueesDouble5]\<rparr>)"
    using five by (simp add: turn_body_def Let_def APPLY_IMMEDIATELY_ON_DOUBLE_5_def por apply_changes_list)
  have lp: "loop resolve subn loads wsroot claude codex (init fs)
      = (Returned, ?stk\<lparr>c_changes := Some (JList cops), d_changes := Some (JList dops),
           files := ?fs', trace := ?rounds @ [CallClaude k, CallCodex k, Double5, Logs ?logs, AppliqueesDouble5]\<rparr>)"
    unfolding pre using k body by (subst loop.simps) simp
  have mn: "run = (Commit, ?stk\<lparr>c_changes := Some (JList cops), d_changes := Some (JList dops),
           files := ?fs', trace := ?rounds @ [CallClaude k, CallCodex k, Double5, Logs ?logs, AppliqueesDouble5]\<rparr>)"
    using wsex quest lp by (auto simp: run main_def)
  have len: "length ?logs = length applied"
    by (rule apply_each_length)
  show ?thesis
    unfolding mn using len by (simp add: apply_changes_list)
qed

text \<open>
  The scenario of the specification: both scores are 5 on turn 0 and the Reviewer sends
  one \<^verbatim>\<open>replace\<close> of \<^verbatim>\<open>notes.txt\<close> by \<^verbatim>\<open>hello\<close>. One round trip, and the file holds \<^verbatim>\<open>hello\<close>.
\<close>

theorem double_five_commits_witness:
  \<open>fst (main resolve_nolinks subn_literal json_loads ws fs0 ''q''
          (\<lambda>t. Says ''{"score": 5, "summary": "ok", "changes": []}'')
          (\<lambda>t. Says ''{"score": 5, "changes": [{"action": "replace", "path": "notes.txt", "content": "hello"}]}'') None) = Commit
   \<and> trace (snd (main resolve_nolinks subn_literal json_loads ws fs0 ''q''
          (\<lambda>t. Says ''{"score": 5, "summary": "ok", "changes": []}'')
          (\<lambda>t. Says ''{"score": 5, "changes": [{"action": "replace", "path": "notes.txt", "content": "hello"}]}'') None))
     = [CallClaude 0, CallCodex 0, Double5, Logs [(True, Msg (Replaced (JStr ''notes.txt'')))],
        AppliqueesDouble5]
   \<and> files (snd (main resolve_nolinks subn_literal json_loads ws fs0 ''q''
          (\<lambda>t. Says ''{"score": 5, "summary": "ok", "changes": []}'')
          (\<lambda>t. Says ''{"score": 5, "changes": [{"action": "replace", "path": "notes.txt", "content": "hello"}]}'') None)) [''/'', ''ws'', ''notes.txt'']
     = Some (File ''hello'')\<close>
proof -
  let ?cj = "JDict [(''score'', JInt 5), (''summary'', JStr ''ok''), (''changes'', JList [])]"
  let ?dj = "JDict [(''score'', JInt 5), (''changes'', JList [hello_edit])]"
  have c1: \<open>ask_claude json_loads (Says ''{"score": 5, "summary": "ok", "changes": []}'') = Inr ?cj\<close>
    by code_simp
  have c2: "score_of ?cj = Inr 5"
    by code_simp
  have c3: "changes_of ?cj = Inr (JList [])"
    by code_simp
  have d1: \<open>ask_codex json_loads (Says ''{"score": 5, "changes": [{"action": "replace", "path": "notes.txt", "content": "hello"}]}'') = Inr ?dj\<close>
    by code_simp
  have d2: "score_of ?dj = Inr 5"
    by code_simp
  have d3: "changes_of ?dj = Inr (JList [hello_edit])"
    by code_simp
  have ex: "node_at fs0 ws \<noteq> None"
    by (simp add: node_at_def fs0_def ws_def)
  have ap1: "fst (apply_changes resolve_nolinks subn_literal ws fs0 (JList [hello_edit]))
      = Inr [(True, Msg (Replaced (JStr ''notes.txt'')))]"
    by code_simp
  have ap2: "snd (apply_changes resolve_nolinks subn_literal ws fs0 (JList [hello_edit]))
      [''/'', ''ws'', ''notes.txt''] = Some (File ''hello'')"
    by code_simp
  have "0 < TURN_LIMIT"
    by (simp add: TURN_LIMIT_def)
  from double_five_commits [where fs = fs0 and wsroot = ws and question = "''q''" and k = 0
      and loads = json_loads and resolve = resolve_nolinks and subn = subn_literal
      and answer = None and cops = "[]" and dops = "[hello_edit]" and applied = "[hello_edit]",
      OF ex _ _ this c1 c2 c3 d1 d2 d3 _ refl]
  show ?thesis
    using ap1 ap2 by auto
qed

section \<open>Exhaustion\<close>

text \<open>
  Claim C8. Take a run in which every turn up to the bound gives two messages with scores
  not both 5. Then the loop ends by exhaustion after exactly \<open>TURN_LIMIT\<close> round trips.
  The candidate is the last Reviewer's changes, or the last Proposer's when the former
  are empty: when the candidate is empty nothing is offered; otherwise it is shown to the
  user, and unless the answer (stripped, lowered) is \<^verbatim>\<open>o\<close> the run ends with the file
  system untouched and no edit applied; on \<^verbatim>\<open>o\<close> the file system is the one the batch
  applier returns for the candidate.
\<close>

theorem exhaustion_offers_last_changes:
  assumes wsex: "node_at fs wsroot \<noteq> None" and quest: "question \<noteq> []"
    and und: "\<forall>t<TURN_LIMIT.
             ask_claude loads (claude t) = Inr (cj t) \<and> score_of (cj t) = Inr (cs t)
           \<and> changes_of (cj t) = Inr (cc t)
           \<and> ask_codex loads (codex t) = Inr (dj t) \<and> score_of (dj t) = Inr (ds t)
           \<and> changes_of (dj t) = Inr (dc t) \<and> \<not> (cs t = 5 \<and> ds t = 5)"
    and cand: "candidate = py_or (dc (TURN_LIMIT - 1)) (cc (TURN_LIMIT - 1))"
    and rounds: "rounds = concat (map (\<lambda>t. [CallClaude t, CallCodex t]) [0..<TURN_LIMIT])"
    and run: "run = main resolve subn loads wsroot fs question claude codex answer"
  shows "fst (loop resolve subn loads wsroot claude codex (init fs)) = Exhausted
       \<and> trace (snd (loop resolve subn loads wsroot claude codex (init fs))) = rounds
       \<and> (if \<not> truthy candidate then
             run = (NothingProposed, \<lparr>turn = TURN_LIMIT, c_changes = Some (cc (TURN_LIMIT - 1)),
                      d_changes = Some (dc (TURN_LIMIT - 1)), files = fs,
                      trace = rounds @ [Limite, AucuneProposee]\<rparr>)
           else if answer = None \<or> lower (strip (the answer)) \<noteq> ''o'' then
             run = (NotApplied, \<lparr>turn = TURN_LIMIT, c_changes = Some (cc (TURN_LIMIT - 1)),
                      d_changes = Some (dc (TURN_LIMIT - 1)), files = fs,
                      trace = rounds @ [Limite, Apercu candidate, AucuneAppliquee]\<rparr>)
           else
             files (snd run) = snd (apply_changes resolve subn wsroot fs candidate)
             \<and> (\<exists>rest. trace (snd run) = rounds @ [Limite, Apercu candidate] @ rest))"
proof -
  let ?fin = "\<lparr>turn = TURN_LIMIT, c_changes = Some (cc (TURN_LIMIT - 1)),
               d_changes = Some (dc (TURN_LIMIT - 1)), files = fs, trace = rounds\<rparr>"
  have pos: "0 < TURN_LIMIT" by (simp add: TURN_LIMIT_def)
  have "loop resolve subn loads wsroot claude codex (init fs)
      = loop resolve subn loads wsroot claude codex
          ((init fs)\<lparr>turn := TURN_LIMIT,
             c_changes := (if turn (init fs) < TURN_LIMIT then Some (cc (TURN_LIMIT - 1)) else c_changes (init fs)),
             d_changes := (if turn (init fs) < TURN_LIMIT then Some (dc (TURN_LIMIT - 1)) else d_changes (init fs)),
             trace := trace (init fs) @ concat (map (\<lambda>t. [CallClaude t, CallCodex t]) [turn (init fs)..<TURN_LIMIT])\<rparr>)"
    using und by (intro loop_undecided_prefix [where cj = cj and cs = cs and dj = dj and ds = ds]) (simp_all add: init_def)
  also have "\<dots> = loop resolve subn loads wsroot claude codex ?fin"
    using pos by (simp add: init_def rounds)
  also have "\<dots> = (Exhausted, ?fin)"
    by (rule loop_at_limit) simp
  finally have lp: "loop resolve subn loads wsroot claude codex (init fs) = (Exhausted, ?fin)" .
  have mn: "run = after_loop resolve subn wsroot answer ?fin"
    using wsex quest lp by (auto simp: run main_def)
  show ?thesis
  proof (intro conjI)
    show "fst (loop resolve subn loads wsroot claude codex (init fs)) = Exhausted"
      and "trace (snd (loop resolve subn loads wsroot claude codex (init fs))) = rounds"
      using lp by simp_all
  next
    show "if \<not> truthy candidate then
             run = (NothingProposed, \<lparr>turn = TURN_LIMIT, c_changes = Some (cc (TURN_LIMIT - 1)),
                      d_changes = Some (dc (TURN_LIMIT - 1)), files = fs,
                      trace = rounds @ [Limite, AucuneProposee]\<rparr>)
           else if answer = None \<or> lower (strip (the answer)) \<noteq> ''o'' then
             run = (NotApplied, \<lparr>turn = TURN_LIMIT, c_changes = Some (cc (TURN_LIMIT - 1)),
                      d_changes = Some (dc (TURN_LIMIT - 1)), files = fs,
                      trace = rounds @ [Limite, Apercu candidate, AucuneAppliquee]\<rparr>)
           else
             files (snd run) = snd (apply_changes resolve subn wsroot fs candidate)
             \<and> (\<exists>rest. trace (snd run) = rounds @ [Limite, Apercu candidate] @ rest)"
      unfolding mn cand
      by (auto simp: after_loop_def last_codex_def py_or_def Let_def split: prod.splits sum.splits option.splits)
  qed
qed

text \<open>
  Five turns with scores 3 and 4: at end of input nothing is written; with the answer
  \<^verbatim>\<open>O\<close> between blanks the Reviewer's edit is applied.
\<close>

theorem exhaustion_offers_last_changes_witness:
  \<open>main resolve_nolinks subn_literal json_loads ws fs0 ''q''
          (\<lambda>t. Says ''{"score": 3, "changes": []}'')
          (\<lambda>t. Says ''{"score": 4, "changes": [{"action": "replace", "path": "notes.txt", "content": "hello"}]}'') None
   = (NotApplied, \<lparr>turn = 5, c_changes = Some (JList []), d_changes = Some (JList [hello_edit]),
        files = fs0,
        trace = [CallClaude 0, CallCodex 0, CallClaude 1, CallCodex 1, CallClaude 2, CallCodex 2,
                 CallClaude 3, CallCodex 3, CallClaude 4, CallCodex 4,
                 Limite, Apercu (JList [hello_edit]), AucuneAppliquee]\<rparr>)
   \<and> files (snd (main resolve_nolinks subn_literal json_loads ws fs0 ''q''
          (\<lambda>t. Says ''{"score": 3, "changes": []}'')
          (\<lambda>t. Says ''{"score": 4, "changes": [{"action": "replace", "path": "notes.txt", "content": "hello"}]}'') (Some '' O ''))) [''/'', ''ws'', ''notes.txt'']
     = Some (File ''hello'')\<close>
proof -
  let ?cj = "JDict [(''score'', JInt 3), (''changes'', JList [])]"
  let ?dj = "JDict [(''score'', JInt 4), (''changes'', JList [hello_edit])]"
  have c1: \<open>ask_claude json_loads (Says ''{"score": 3, "changes": []}'') = Inr ?cj\<close>
    by code_simp
  have c2: "score_of ?cj = Inr 3"
    by code_simp
  have c3: "changes_of ?cj = Inr (JList [])"
    by code_simp
  have d1: \<open>ask_codex json_loads (Says ''{"score": 4, "changes": [{"action": "replace", "path": "notes.txt", "content": "hello"}]}'') = Inr ?dj\<close>
    by code_simp
  have d2: "score_of ?dj = Inr 4"
    by code_simp
  have d3: "changes_of ?dj = Inr (JList [hello_edit])"
    by code_simp
  have ex: "node_at fs0 ws \<noteq> None"
    by (simp add: node_at_def fs0_def ws_def)
  have yes: "lower (strip '' O '') = ''o''"
    by code_simp
  have ap2: "snd (apply_changes resolve_nolinks subn_literal ws fs0 (JList [hello_edit]))
      [''/'', ''ws'', ''notes.txt''] = Some (File ''hello'')"
    by code_simp
  have rounds: "concat (map (\<lambda>t. [CallClaude t, CallCodex t]) [0..<5])
      = [CallClaude 0, CallCodex 0, CallClaude 1, CallCodex 1, CallClaude 2, CallCodex 2,
         CallClaude 3, CallCodex 3, CallClaude 4, CallCodex 4]"
    by (simp add: upt_rec)
  have lim: "TURN_LIMIT = 5"
    by (simp add: TURN_LIMIT_def)
  have und: \<open>\<forall>t<TURN_LIMIT.
             ask_claude json_loads (Says ''{"score": 3, "changes": []}'') = Inr ?cj \<and> score_of ?cj = Inr 3
           \<and> changes_of ?cj = Inr (JList [])
           \<and> ask_codex json_loads (Says ''{"score": 4, "changes": [{"action": "replace", "path": "notes.txt", "content": "hello"}]}'') = Inr ?dj \<and> score_of ?dj = Inr 4
           \<and> changes_of ?dj = Inr (JList [hello_edit]) \<and> \<not> ((3::int) = 5 \<and> (4::int) = 5)\<close>
    using c1 c2 c3 d1 d2 d3 by simp
  have cand: "JList [hello_edit] = py_or (JList [hello_edit]) (JList [])"
    by (simp add: py_or_def)
  note T = exhaustion_offers_last_changes [where fs = fs0 and wsroot = ws and question = "''q''"
      and loads = json_loads and resolve = resolve_nolinks and subn = subn_literal
      and cj = "\<lambda>t. ?cj" and cs = "\<lambda>t. 3" and cc = "\<lambda>t. JList []"
      and dj = "\<lambda>t. ?dj" and ds = "\<lambda>t. 4" and dc = "\<lambda>t. JList [hello_edit]"
      and candidate = "JList [hello_edit]", OF ex _ und cand refl refl]
  show ?thesis
    using T [where answer = None] T [where answer = "Some '' O ''"]
    by (simp add: rounds lim yes ap2)
qed

section \<open>A message that cannot be obtained\<close>

text \<open>
  Claim C4 says that a run in which a message cannot be obtained or parsed performs no
  file-system write for that turn. After the \<^verbatim>\<open>break\<close> the program goes on to the manual
  confirmation. Here turn 0 proposes nothing with scores 3 and 3; on turn 1 the Proposer
  sends one edit and the Reviewer's text holds no JSON; the user answers \<^verbatim>\<open>o\<close>, and the
  Proposer's edit of the turn that failed is written to \<^verbatim>\<open>notes.txt\<close>.
\<close>

theorem abort_then_confirmed_write:
  \<open>fst (main resolve_nolinks subn_literal json_loads ws fs0 ''q''
          (\<lambda>t. if t = 0 then Says ''{"score": 3, "changes": []}''
                else Says ''{"score": 4, "changes": [{"action": "replace", "path": "notes.txt", "content": "hello"}]}'')
          (\<lambda>t. if t = 0 then Says ''{"score": 3, "changes": []}'' else Says ''pas de JSON ici'')
          (Some ''o'')) = ManualApplied
   \<and> trace (snd (main resolve_nolinks subn_literal json_loads ws fs0 ''q''
          (\<lambda>t. if t = 0 then Says ''{"score": 3, "changes": []}''
                else Says ''{"score": 4, "changes": [{"action": "replace", "path": "notes.txt", "content": "hello"}]}'')
          (\<lambda>t. if t = 0 then Says ''{"score": 3, "changes": []}'' else Says ''pas de JSON ici'')
          (Some ''o'')))
     = [CallClaude 0, CallCodex 0, CallClaude 1, CallCodex 1, CodexErreur NoJson, Limite,
        Apercu (JList [hello_edit]), Logs [(True, Msg (Replaced (JStr ''notes.txt'')))],
        AppliqueesManuel]
   \<and> fs0 [''/'', ''ws'', ''notes.txt''] = Some (File ''old'')
   \<and> files (snd (main resolve_nolinks subn_literal json_loads ws fs0 ''q''
          (\<lambda>t. if t = 0 then Says ''{"score": 3, "changes": []}''
                else Says ''{"score": 4, "changes": [{"action": "replace", "path": "notes.txt", "content": "hello"}]}'')
          (\<lambda>t. if t = 0 then Says ''{"score": 3, "changes": []}'' else Says ''pas de JSON ici'')
          (Some ''o''))) [''/'', ''ws'', ''notes.txt'']
     = Some (File ''hello'')\<close>
  by code_simp

text \<open>
  Claim C4, amended. Take a run whose turns before turn \<open>k\<close> each gave two messages with
  scores not both 5, and in whose turn \<open>k\<close> the Proposer's message, or after it the
  Reviewer's, cannot be obtained or parsed (error \<open>e\<close>). Then the loop stops at that
  point: the error is reported, no collaborator is called any more (for a Proposer's
  failure, the Reviewer of that turn is never called), and the loop has written nothing.
  When a turn was completed before (\<open>0 < k\<close>), the run goes on to the manual confirmation
  with the candidate that the variables hold: the Reviewer's changes of the turn before,
  or when these are empty the Proposer's latest changes. An empty candidate is not
  offered; otherwise the run writes nothing unless the answer (stripped, lowered) is
  \<^verbatim>\<open>o\<close>, and then it applies that candidate.
\<close>

theorem failed_message_stops_the_loop:
  assumes wsex: "node_at fs wsroot \<noteq> None" and quest: "question \<noteq> []"
    and und: "\<forall>t<k.
             ask_claude loads (claude t) = Inr (cj t) \<and> score_of (cj t) = Inr (cs t)
           \<and> changes_of (cj t) = Inr (cc t)
           \<and> ask_codex loads (codex t) = Inr (dj t) \<and> score_of (dj t) = Inr (ds t)
           \<and> changes_of (dj t) = Inr (dc t) \<and> \<not> (cs t = 5 \<and> ds t = 5)"
    and k: "k < TURN_LIMIT"
    and fail: "(ask_claude loads (claude k) = Inl e \<and> tail = [CallClaude k, ClaudeErreur e]
                 \<and> pending = cc (k - 1))
             \<or> (ask_claude loads (claude k) = Inr cjk \<and> score_of cjk = Inr csk
                 \<and> changes_of cjk = Inr pending \<and> ask_codex loads (codex k) = Inl e
                 \<and> tail = [CallClaude k, CallCodex k, CodexErreur e])"
    and rounds: "rounds = concat (map (\<lambda>t. [CallClaude t, CallCodex t]) [0..<k])"
    and cand: "candidate = py_or (dc (k - 1)) pending"
    and run: "run = main resolve subn loads wsroot fs question claude codex answer"
  shows "fst (loop resolve subn loads wsroot claude codex (init fs)) = Broke
       \<and> trace (snd (loop resolve subn loads wsroot claude codex (init fs))) = rounds @ tail
       \<and> files (snd (loop resolve subn loads wsroot claude codex (init fs))) = fs
       \<and> (0 < k \<longrightarrow>
            (if \<not> truthy candidate then
               fst run = NothingProposed \<and> files (snd run) = fs
               \<and> trace (snd run) = rounds @ tail @ [Limite, AucuneProposee]
             else if answer = None \<or> lower (strip (the answer)) \<noteq> ''o'' then
               fst run = NotApplied \<and> files (snd run) = fs
               \<and> trace (snd run) = rounds @ tail @ [Limite, Apercu candidate, AucuneAppliquee]
             else
               files (snd run) = snd (apply_changes resolve subn wsroot fs candidate)
               \<and> (\<forall>logs. fst (apply_changes resolve subn wsroot fs candidate) = Inr logs \<longrightarrow>
                     fst run = ManualApplied
                     \<and> trace (snd run)
                         = rounds @ tail @ [Limite, Apercu candidate, Logs logs, AppliqueesManuel])))"
proof -
  let ?stk = "\<lparr>turn = k, c_changes = (if 0 < k then Some (cc (k - 1)) else None),
               d_changes = (if 0 < k then Some (dc (k - 1)) else None), files = fs,
               trace = rounds\<rparr>"
  have "loop resolve subn loads wsroot claude codex (init fs)
      = loop resolve subn loads wsroot claude codex
          ((init fs)\<lparr>turn := k,
             c_changes := (if turn (init fs) < k then Some (cc (k - 1)) else c_changes (init fs)),
             d_changes := (if turn (init fs) < k then Some (dc (k - 1)) else d_changes (init fs)),
             trace := trace (init fs) @ concat (map (\<lambda>t. [CallClaude t, CallCodex t]) [turn (init fs)..<k])\<rparr>)"
    using und k
    by (intro loop_undecided_prefix [where cj = cj and cs = cs and dj = dj and ds = ds])
       (simp_all add: init_def)
  also have "\<dots> = loop resolve subn loads wsroot claude codex ?stk"
    by (simp add: init_def rounds)
  finally have pre: "loop resolve subn loads wsroot claude codex (init fs)
      = loop resolve subn loads wsroot claude codex ?stk" .
  obtain stb where body: "turn_body resolve subn loads wsroot claude codex ?stk = Stop Broke stb"
    and tr: "trace stb = rounds @ tail" and fl: "files stb = fs"
    and dch: "0 < k \<Longrightarrow> d_changes stb = Some (dc (k - 1))"
    and cch: "0 < k \<Longrightarrow> c_changes stb = Some pending"
    using fail by (auto simp: turn_body_def Let_def)
  have lp: "loop resolve subn loads wsroot claude codex (init fs) = (Broke, stb)"
    unfolding pre using k body by (subst loop.simps) simp
  have mn: "run = after_loop resolve subn wsroot answer stb"
    using wsex quest lp by (auto simp: run main_def)
  have after: "if \<not> truthy candidate then
               fst run = NothingProposed \<and> files (snd run) = fs
               \<and> trace (snd run) = rounds @ tail @ [Limite, AucuneProposee]
             else if answer = None \<or> lower (strip (the answer)) \<noteq> ''o'' then
               fst run = NotApplied \<and> files (snd run) = fs
               \<and> trace (snd run) = rounds @ tail @ [Limite, Apercu candidate, AucuneAppliquee]
             else
               files (snd run) = snd (apply_changes resolve subn wsroot fs candidate)
               \<and> (\<forall>logs. fst (apply_changes resolve subn wsroot fs candidate) = Inr logs \<longrightarrow>
                     fst run = ManualApplied
                     \<and> trace (snd run)
                         = rounds @ tail @ [Limite, Apercu candidate, Logs logs, AppliqueesManuel])"
    if "0 < k"
    unfolding mn cand using tr fl dch [OF that] cch [OF that]
    by (auto simp: after_loop_def last_codex_def py_or_def Let_def
        split: prod.splits sum.splits option.splits)
  show ?thesis
    using lp tr fl after by simp
qed

text \<open>
  The scenario of the specification: the Proposer's text of turn 0 holds no payload, and
  the loop stops after that one call with nothing written. And a failure on turn 1,
  followed by the end of input: the Reviewer's edit of turn 0 is offered and not applied.
\<close>

theorem failed_message_stops_the_loop_witness:
  \<open>fst (loop resolve_nolinks subn_literal json_loads ws (\<lambda>t. Says ''pas de JSON ici'')
          (\<lambda>t. Says ''{"score": 4, "changes": [{"action": "replace", "path": "notes.txt", "content": "hello"}]}'') (init fs0)) = Broke
   \<and> trace (snd (loop resolve_nolinks subn_literal json_loads ws (\<lambda>t. Says ''pas de JSON ici'')
          (\<lambda>t. Says ''{"score": 4, "changes": [{"action": "replace", "path": "notes.txt", "content": "hello"}]}'') (init fs0))) = [CallClaude 0, ClaudeErreur NoJson]
   \<and> files (snd (loop resolve_nolinks subn_literal json_loads ws (\<lambda>t. Says ''pas de JSON ici'')
          (\<lambda>t. Says ''{"score": 4, "changes": [{"action": "replace", "path": "notes.txt", "content": "hello"}]}'') (init fs0))) = fs0
   \<and> fst (main resolve_nolinks subn_literal json_loads ws fs0 ''q''
          (\<lambda>t. if t = 0 then Says ''{"score": 3, "changes": []}'' else Says ''pas de JSON ici'')
          (\<lambda>t. Says ''{"score": 4, "changes": [{"action": "replace", "path": "notes.txt", "content": "hello"}]}'') None) = NotApplied
   \<and> files (snd (main resolve_nolinks subn_literal json_loads ws fs0 ''q''
          (\<lambda>t. if t = 0 then Says ''{"score": 3, "changes": []}'' else Says ''pas de JSON ici'')
          (\<lambda>t. Says ''{"score": 4, "changes": [{"action": "replace", "path": "notes.txt", "content": "hello"}]}'') None)) = fs0
   \<and> trace (snd (main resolve_nolinks subn_literal json_loads ws fs0 ''q''
          (\<lambda>t. if t = 0 then Says ''{"score": 3, "changes": []}'' else Says ''pas de JSON ici'')
          (\<lambda>t. Says ''{"score": 4, "changes": [{"action": "replace", "path": "notes.txt", "content": "hello"}]}'') None))
     = [CallClaude 0, CallCodex 0, CallClaude 1, ClaudeErreur NoJson, Limite,
        Apercu (JList [hello_edit]), AucuneAppliquee]\<close>
proof -
  let ?cj = "JDict [(''score'', JInt 3), (''changes'', JList [])]"
  let ?dj = "JDict [(''score'', JInt 4), (''changes'', JList [hello_edit])]"
  have c0: \<open>ask_claude json_loads (Says ''pas de JSON ici'') = Inl NoJson\<close>
    by code_simp
  have c1: \<open>ask_claude json_loads (Says ''{"score": 3, "changes": []}'') = Inr ?cj\<close>
    by code_simp
  have c2: "score_of ?cj = Inr 3"
    by code_simp
  have c3: "changes_of ?cj = Inr (JList [])"
    by code_simp
  have d1: \<open>ask_codex json_loads (Says ''{"score": 4, "changes": [{"action": "replace", "path": "notes.txt", "content": "hello"}]}'') = Inr ?dj\<close>
    by code_simp
  have d2: "score_of ?dj = Inr 4"
    by code_simp
  have d3: "changes_of ?dj = Inr (JList [hello_edit])"
    by code_simp
  have ex: "node_at fs0 ws \<noteq> None"
    by (simp add: node_at_def fs0_def ws_def)
  have k0: "0 < TURN_LIMIT" and k1: "1 < TURN_LIMIT"
    by (simp_all add: TURN_LIMIT_def)
  have cand: "JList [hello_edit] = py_or (JList [hello_edit]) (JList [])"
    by (simp add: py_or_def)
  note T = failed_message_stops_the_loop [where fs = fs0 and wsroot = ws and question = "''q''"
      and loads = json_loads and resolve = resolve_nolinks and subn = subn_literal and e = NoJson]
  have first: \<open>fst (loop resolve_nolinks subn_literal json_loads ws (\<lambda>t. Says ''pas de JSON ici'')
          (\<lambda>t. Says ''{"score": 4, "changes": [{"action": "replace", "path": "notes.txt", "content": "hello"}]}'') (init fs0)) = Broke
   \<and> trace (snd (loop resolve_nolinks subn_literal json_loads ws (\<lambda>t. Says ''pas de JSON ici'')
          (\<lambda>t. Says ''{"score": 4, "changes": [{"action": "replace", "path": "notes.txt", "content": "hello"}]}'') (init fs0))) = [CallClaude 0, ClaudeErreur NoJson]
   \<and> files (snd (loop resolve_nolinks subn_literal json_loads ws (\<lambda>t. Says ''pas de JSON ici'')
          (\<lambda>t. Says ''{"score": 4, "changes": [{"action": "replace", "path": "notes.txt", "content": "hello"}]}'') (init fs0))) = fs0\<close>
    using T [where k = 0 and tail = "[CallClaude 0, ClaudeErreur NoJson]" and answer = None
        and claude = \<open>\<lambda>t. Says ''pas de JSON ici''\<close>
        and codex = \<open>\<lambda>t. Says ''{"score": 4, "changes": [{"action": "replace", "path": "notes.txt", "content": "hello"}]}''\<close>
        and cc = "\<lambda>t. JList []" and pending = "JList []",
        OF ex _ _ k0 _ refl refl refl] c0
    by simp
  have second: \<open>fst (main resolve_nolinks subn_literal json_loads ws fs0 ''q''
          (\<lambda>t. if t = 0 then Says ''{"score": 3, "changes": []}'' else Says ''pas de JSON ici'')
          (\<lambda>t. Says ''{"score": 4, "changes": [{"action": "replace", "path": "notes.txt", "content": "hello"}]}'') None) = NotApplied
   \<and> files (snd (main resolve_nolinks subn_literal json_loads ws fs0 ''q''
          (\<lambda>t. if t = 0 then Says ''{"score": 3, "changes": []}'' else Says ''pas de JSON ici'')
          (\<lambda>t. Says ''{"score": 4, "changes": [{"action": "replace", "path": "notes.txt", "content": "hello"}]}'') None)) = fs0
   \<and> trace (snd (main resolve_nolinks subn_literal json_loads ws fs0 ''q''
          (\<lambda>t. if t = 0 then Says ''{"score": 3, "changes": []}'' else Says ''pas de JSON ici'')
          (\<lambda>t. Says ''{"score": 4, "changes": [{"action": "replace", "path": "notes.txt", "content": "hello"}]}'') None))
     = [CallClaude 0, CallCodex 0, CallClaude 1, ClaudeErreur NoJson, Limite,
        Apercu (JList [hello_edit]), AucuneAppliquee]\<close>
    using T [where k = 1 and tail = "[CallClaude 1, ClaudeErreur NoJson]" and answer = None
        and claude = \<open>\<lambda>t. if t = 0 then Says ''{"score": 3, "changes": []}'' else Says ''pas de JSON ici''\<close>
        and codex = \<open>\<lambda>t. Says ''{"score": 4, "changes": [{"action": "replace", "path": "notes.txt", "content": "hello"}]}''\<close>
        and cj = "\<lambda>t. ?cj" and cs = "\<lambda>t. 3" and cc = "\<lambda>t. JList []"
        and dj = "\<lambda>t. ?dj" and ds = "\<lambda>t. 4" and dc = "\<lambda>t. JList [hello_edit]"
        and pending = "JList []" and candidate = "JList [hello_edit]",
        OF ex _ _ k1 _ refl _ refl] c0 c1 c2 c3 d1 d2 d3 cand
    by simp
  show ?thesis
    using first second by simp
qed

end
